theory Spec2Isabelle
  imports Complex_Main "HOL-Library.Word" "HOL-Library.Sublist"
begin

section \<open>Ghostly Memory Bank: episode extraction and confidence-scored retrieval\<close>

text \<open>
  A shallow embedding of the TypeScript sources \<^verbatim>\<open>storage/embeddings.ts\<close>,
  \<^verbatim>\<open>storage/db.ts\<close>, \<^verbatim>\<open>extraction/index.ts\<close>, \<^verbatim>\<open>retrieval/index.ts\<close> and
  \<^verbatim>\<open>types.ts\<close>.

  Modelling conventions.
  \<^item> JavaScript numbers that carry similarities and confidences are modelled as \<^typ>\<open>real\<close>
    where only their order and their zero cases are at stake. Where the digits of a
    result are at stake, \<^verbatim>\<open>calculateConfidence\<close> is modelled a second time over binary64
    numbers with round-to-nearest-even (\<open>calculateConfidence64\<close>), and the two are related
    by an error bound. NaN, infinities, overflow and subnormal numbers are outside the
    model. Timestamps, exit codes, row ids and counters are modelled as \<^typ>\<open>int\<close>.
  \<^item> JavaScript strings are modelled as \<^typ>\<open>string\<close>; the character classes and the
    case mapping below are those of ASCII text.
  \<^item> The SQLite tables are lists of rows in insertion (rowid) order, together with the
    AUTOINCREMENT counters; every operation takes the database and returns the new one.
  \<^item> What the sources take from outside the repository is a parameter: the MD5 digest
    (\<open>md5\<close>), the clock (\<open>now\<close>), the platform description (\<open>env\<close>), the embedding
    provider (\<open>genEmbedding\<close>, \<open>None\<close> when it is unavailable) and the locale's number and date
    formatting.
\<close>

subsection \<open>String primitives\<close>

definition isUpperAscii :: "char \<Rightarrow> bool" where
  "isUpperAscii c = (65 \<le> (of_char c :: nat) \<and> (of_char c :: nat) \<le> 90)"

definition isLowerAscii :: "char \<Rightarrow> bool" where
  "isLowerAscii c = (97 \<le> (of_char c :: nat) \<and> (of_char c :: nat) \<le> 122)"

definition isDigit :: "char \<Rightarrow> bool" where
  "isDigit c = (48 \<le> (of_char c :: nat) \<and> (of_char c :: nat) \<le> 57)"

text \<open>\<^verbatim>\<open>toLowerCase\<close>: the letters A..Z are 0x41..0x5A, and adding 0x20 sets bit 5.\<close>

definition toLowerChar :: "char \<Rightarrow> char" where
  "toLowerChar c =
     (if isUpperAscii c
      then (case c of Char b0 b1 b2 b3 b4 b5 b6 b7 \<Rightarrow> Char b0 b1 b2 b3 b4 True b6 b7)
      else c)"

definition toLowerCase :: "string \<Rightarrow> string" where
  "toLowerCase s = map toLowerChar s"

text \<open>The regular-expression class \<^verbatim>\<open>\s\<close> (tab, LF, VT, FF, CR, space).\<close>

definition isSpace :: "char \<Rightarrow> bool" where
  "isSpace c = ((of_char c :: nat) \<in> {9, 10, 11, 12, 13, 32})"

text \<open>The class \<^verbatim>\<open>\w\<close>: letters, digits and the underscore.\<close>

definition isWordChar :: "char \<Rightarrow> bool" where
  "isWordChar c = (isUpperAscii c \<or> isLowerAscii c \<or> isDigit c \<or> c = CHR ''_'')"

text \<open>Line terminators, which the regular-expression dot does not match.\<close>

definition isLineTerminator :: "char \<Rightarrow> bool" where
  "isLineTerminator c = ((of_char c :: nat) \<in> {10, 13})"

definition trim :: "string \<Rightarrow> string" where
  "trim s = rev (dropWhile isSpace (rev (dropWhile isSpace s)))"

text \<open>\<^verbatim>\<open>s.split(c)\<close> for a one-character separator: the empty string gives one empty piece.\<close>

fun splitOn :: "char \<Rightarrow> string \<Rightarrow> string list" where
  "splitOn c [] = [[]]"
| "splitOn c (x # xs) =
     (if x = c then [] # splitOn c xs
      else (case splitOn c xs of [] \<Rightarrow> [[x]] | y # ys \<Rightarrow> (x # y) # ys))"

text \<open>
  \<^verbatim>\<open>s.split(/\s+/)\<close>: the pieces between maximal runs of white space. The flag says that
  the previous character belonged to a run, so a longer run still ends one piece only.
  The empty string gives one empty piece; leading or trailing white space gives an empty
  first or last piece.
\<close>

fun splitWsFrom :: "bool \<Rightarrow> string \<Rightarrow> string list" where
  "splitWsFrom inRun [] = [[]]"
| "splitWsFrom inRun (x # xs) =
     (if isSpace x then (if inRun then splitWsFrom True xs else [] # splitWsFrom True xs)
      else (case splitWsFrom False xs of [] \<Rightarrow> [[x]] | y # ys \<Rightarrow> (x # y) # ys))"

definition splitWs :: "string \<Rightarrow> string list" where
  "splitWs s = splitWsFrom False s"

text \<open>\<^verbatim>\<open>xs.join(sep)\<close>.\<close>

fun join :: "string \<Rightarrow> string list \<Rightarrow> string" where
  "join sep [] = []"
| "join sep [x] = x"
| "join sep (x # y # ys) = x @ sep @ join sep (y # ys)"

text \<open>\<^verbatim>\<open>s.includes(p)\<close>: \<open>p\<close> occurs in \<open>s\<close> as a contiguous substring.\<close>

fun includes_str :: "string \<Rightarrow> string \<Rightarrow> bool" where
  "includes_str [] p = (p = [])"
| "includes_str (x # xs) p = (prefix p (x # xs) \<or> includes_str xs p)"

text \<open>\<^verbatim>\<open>new Set(xs)\<close> spread back into an array: first occurrences, in order.\<close>

fun dedupe :: "'a list \<Rightarrow> 'a list" where
  "dedupe [] = []"
| "dedupe (x # xs) = x # dedupe (filter (\<lambda>y. y \<noteq> x) xs)"

subsection \<open>Similarity and confidence (storage/embeddings.ts)\<close>

text \<open>The loop of \<^verbatim>\<open>cosineSimilarity\<close> with its three accumulators.\<close>

fun cosineLoop :: "real list \<Rightarrow> real list \<Rightarrow> real \<times> real \<times> real \<Rightarrow> real \<times> real \<times> real" where
  "cosineLoop (x # xs) (y # ys) (dotProduct, normA, normB) =
     cosineLoop xs ys (dotProduct + x * y, normA + x * x, normB + y * y)"
| "cosineLoop _ _ acc = acc"

definition cosineSimilarity :: "real list \<Rightarrow> real list \<Rightarrow> real" where
  "cosineSimilarity a b =
     (if length a \<noteq> length b then 0
      else (case cosineLoop a b (0, 0, 0) of (dotProduct, normA, normB) \<Rightarrow>
        if normA = 0 \<or> normB = 0 then 0
        else dotProduct / (sqrt normA * sqrt normB)))"

text \<open>The mathematical notions the loop is compared with.\<close>

definition dot :: "real list \<Rightarrow> real list \<Rightarrow> real" where
  "dot a b = sum_list (map2 (*) a b)"

definition magnitude :: "real list \<Rightarrow> real" where
  "magnitude a = sqrt (dot a a)"

definition textSimilarity :: "string \<Rightarrow> string \<Rightarrow> real" where
  "textSimilarity text1 text2 =
     (let words1 = dedupe (splitWs (toLowerCase text1));
          words2 = dedupe (splitWs (toLowerCase text2));
          intersection = dedupe (filter (\<lambda>x. x \<in> set words2) words1);
          union = dedupe (words1 @ words2)
      in real (length intersection) / real (length union))"

definition calculateConfidence :: "real \<Rightarrow> bool \<Rightarrow> real \<Rightarrow> real" where
  "calculateConfidence semanticSimilarity projectMatch commandSimilarity =
     (let score = 0.5 * semanticSimilarity
                + 0.3 * (if projectMatch then 1 else 0)
                + 0.2 * commandSimilarity
      in min score 1)"

subsection \<open>IEEE-754 binary64 arithmetic\<close>

text \<open>
  The numbers of the source are IEEE-754 doubles. A finite double is modelled as a pair
  \<open>(m, e)\<close> of integers that stands for \<open>m \<sqdot> 2\<^sup>e\<close>; every operation computes the exact
  result and rounds it to 53 significant bits, to nearest and ties to even. Overflow,
  subnormal results, NaN and signed zero are not modelled.
\<close>

type_synonym double = "int \<times> int"

definition valof :: "double \<Rightarrow> real" where
  "valof d = real_of_int (fst d) * 2 powi (snd d)"

text \<open>The number of significant bits of a natural number.\<close>

fun bits :: "nat \<Rightarrow> nat" where
  "bits n = (if n = 0 then 0 else Suc (bits (n div 2)))"

declare bits.simps [simp del]

text \<open>\<open>n / 2\<^sup>k\<close> rounded to the nearest integer, a tie going to the even neighbour.\<close>

definition roundEven :: "nat \<Rightarrow> nat \<Rightarrow> nat" where
  "roundEven n k =
     (let q = n div 2 ^ k; r = n mod 2 ^ k
      in if 2 ^ k < 2 * r \<or> (2 * r = 2 ^ k \<and> odd q) then q + 1 else q)"

definition round53 :: "int \<times> int \<Rightarrow> double" where
  "round53 x =
     (let m = fst x; e = snd x; n = nat \<bar>m\<bar>; b = bits n
      in if b \<le> 53 then (m, e)
         else (sgn m * int (roundEven n (b - 53)), e + int (b - 53)))"

definition fmul :: "double \<Rightarrow> double \<Rightarrow> double" where
  "fmul a b = round53 (fst a * fst b, snd a + snd b)"

definition fadd :: "double \<Rightarrow> double \<Rightarrow> double" where
  "fadd a b =
     (let e = min (snd a) (snd b)
      in round53 (fst a * 2 ^ nat (snd a - e) + fst b * 2 ^ nat (snd b - e), e))"

text \<open>\<^verbatim>\<open>Math.min\<close> on two finite doubles.\<close>

definition fmin :: "double \<Rightarrow> double \<Rightarrow> double" where
  "fmin a b = (if valof a \<le> valof b then a else b)"

text \<open>
  The doubles that the literals \<^verbatim>\<open>0.5\<close>, \<^verbatim>\<open>0.3\<close>, \<^verbatim>\<open>0.2\<close>, \<^verbatim>\<open>1\<close> and \<^verbatim>\<open>0\<close> of the source
  denote, and those of \<^verbatim>\<open>0.9\<close>, \<^verbatim>\<open>0.4\<close>, \<^verbatim>\<open>0.83\<close> and \<^verbatim>\<open>0.75\<close>.
\<close>

definition d_half :: double where "d_half = (1, - 1)"
definition d_0_3 :: double where "d_0_3 = (5404319552844595, - 54)"
definition d_0_2 :: double where "d_0_2 = (3602879701896397, - 54)"
definition d_one :: double where "d_one = (1, 0)"
definition d_zero :: double where "d_zero = (0, 0)"
definition d_0_9 :: double where "d_0_9 = (8106479329266893, - 53)"
definition d_0_4 :: double where "d_0_4 = (3602879701896397, - 53)"
definition d_0_83 :: double where "d_0_83 = (7475975381435023, - 53)"
definition d_0_75 :: double where "d_0_75 = (3, - 2)"

text \<open>\<^verbatim>\<open>calculateConfidence\<close> as the source computes it: products first, sums from the left.\<close>

definition calculateConfidence64 :: "double \<Rightarrow> bool \<Rightarrow> double \<Rightarrow> double" where
  "calculateConfidence64 semanticSimilarity projectMatch commandSimilarity =
     (let score = fadd (fadd (fmul d_half semanticSimilarity)
                             (fmul d_0_3 (if projectMatch then d_one else d_zero)))
                       (fmul d_0_2 commandSimilarity)
      in fmin score d_one)"

subsection \<open>Data (types.ts)\<close>

record TerminalEvent =
  timestamp :: int
  cwd :: string
  git_branch :: "string option"
  command :: string
  exit_code :: int
  stderr :: string
  stdout_truncated :: string
  session_id :: string
  project_hash :: string

text \<open>
  An episode, with the component type of its embedding as a parameter: in memory the
  embedding is a \<^verbatim>\<open>number[]\<close> (\<open>real Episode\<close>), in the \<^verbatim>\<open>episodes\<close> table it is a
  BLOB of bytes (\<open>8 word Episode\<close>). The fields \<^verbatim>\<open>id\<close>, \<^verbatim>\<open>project_hash\<close> and
  \<^verbatim>\<open>git_branch\<close> carry the prefix \<open>ep_\<close>, as does \<^verbatim>\<open>keywords\<close>.
\<close>

record 'n Episode =
  ep_id :: "int option"
  ep_project_hash :: string
  directory :: string
  ep_git_branch :: "string option"
  problem_summary :: string
  environment :: string
  fix_sequence :: string
  ep_keywords :: string
  embedding :: "'n list option"
  first_seen :: int
  last_seen :: int
  occurrence_count :: int

text \<open>A raw event; the fields it shares with a terminal event carry the prefix \<open>raw_\<close>.\<close>

record RawEvent =
  raw_id :: "int option"
  episode_id :: "int option"
  raw_timestamp :: int
  raw_cwd :: string
  raw_git_branch :: "string option"
  raw_command :: string
  raw_exit_code :: int
  raw_stderr :: string
  raw_stdout_truncated :: string
  raw_session_id :: string

record RetrievalResult =
  episode :: "real Episode"
  similarity :: real
  confidence :: real

record RetrievalContext =
  ctx_cwd :: string
  ctx_command :: string
  ctx_exit_code :: int
  ctx_stderr :: string
  ctx_git_branch :: "string option"
  ctx_project_hash :: string

definition ERROR_PATTERNS :: "string list" where
  "ERROR_PATTERNS =
     [''error'', ''fail'', ''failed'', ''failure'', ''exception'', ''fatal'', ''E '',
      ''ENOENT'', ''ECONNREFUSED'', ''EACCES'', ''ENOEXEC'', ''ERR_'', ''panic'',
      '' Segmentation fault'', ''core dumped'']"

subsection \<open>The store (storage/db.ts)\<close>

text \<open>
  The two tables in rowid order and the AUTOINCREMENT counters (the largest rowid each
  table has used).
\<close>

record Database =
  episodes :: "8 word Episode list"
  raw_events :: "RawEvent list"
  episodes_seq :: int
  raw_events_seq :: int

definition emptyDb :: Database where
  "emptyDb = \<lparr>episodes = [], raw_events = [], episodes_seq = 0, raw_events_seq = 0\<rparr>"

text \<open>
  \<^verbatim>\<open>new Uint8Array(xs)\<close> converts each number with ToUint8: truncate towards zero, then
  reduce modulo 256.
\<close>

definition toUint8 :: "real \<Rightarrow> 8 word" where
  "toUint8 x = word_of_int (if 0 \<le> x then \<lfloor>x\<rfloor> else - \<lfloor>- x\<rfloor>)"

text \<open>\<^verbatim>\<open>Array.from(new Uint8Array(blob))\<close>: each byte as a number.\<close>

definition fromUint8 :: "8 word \<Rightarrow> real" where
  "fromUint8 w = real (unat w)"

definition insertEpisode :: "Database \<Rightarrow> real Episode \<Rightarrow> int \<times> Database" where
  "insertEpisode db ep =
     (let newId = episodes_seq db + 1;
          row = \<lparr>ep_id = Some newId,
                 ep_project_hash = ep_project_hash ep,
                 directory = directory ep,
                 ep_git_branch = ep_git_branch ep,
                 problem_summary = problem_summary ep,
                 environment = environment ep,
                 fix_sequence = fix_sequence ep,
                 ep_keywords = ep_keywords ep,
                 embedding = (case embedding ep of None \<Rightarrow> None | Some v \<Rightarrow> Some (map toUint8 v)),
                 first_seen = first_seen ep,
                 last_seen = last_seen ep,
                 occurrence_count = occurrence_count ep\<rparr>
      in (newId, db\<lparr>episodes := episodes db @ [row], episodes_seq := newId\<rparr>))"

text \<open>
  The \<^verbatim>\<open>Partial<Episode>\<close> that \<^verbatim>\<open>updateEpisode\<close> reads: \<open>None\<close> is a field left
  undefined.
\<close>

record EpisodeUpdates =
  upd_last_seen :: "int option"
  upd_occurrence_count :: "int option"
  upd_embedding :: "real list option option"

definition applyUpdates :: "EpisodeUpdates \<Rightarrow> 8 word Episode \<Rightarrow> 8 word Episode" where
  "applyUpdates u row =
     (let r1 = (case upd_last_seen u of None \<Rightarrow> row | Some t \<Rightarrow> row\<lparr>last_seen := t\<rparr>);
          r2 = (case upd_occurrence_count u of None \<Rightarrow> r1 | Some n \<Rightarrow> r1\<lparr>occurrence_count := n\<rparr>)
      in (case upd_embedding u of
            None \<Rightarrow> r2
          | Some None \<Rightarrow> r2\<lparr>embedding := None\<rparr>
          | Some (Some v) \<Rightarrow> r2\<lparr>embedding := Some (map toUint8 v)\<rparr>))"

text \<open>\<^verbatim>\<open>UPDATE episodes SET ... WHERE id = ?\<close>.\<close>

definition updateEpisode :: "Database \<Rightarrow> int \<Rightarrow> EpisodeUpdates \<Rightarrow> Database" where
  "updateEpisode db i u =
     db\<lparr>episodes := map (\<lambda>row. if ep_id row = Some i then applyUpdates u row else row) (episodes db)\<rparr>"

definition rowToEpisode :: "8 word Episode \<Rightarrow> real Episode" where
  "rowToEpisode row =
     \<lparr>ep_id = ep_id row,
      ep_project_hash = ep_project_hash row,
      directory = directory row,
      ep_git_branch = ep_git_branch row,
      problem_summary = problem_summary row,
      environment = environment row,
      fix_sequence = fix_sequence row,
      ep_keywords = ep_keywords row,
      embedding = (case embedding row of None \<Rightarrow> None | Some bytes \<Rightarrow> Some (map fromUint8 bytes)),
      first_seen = first_seen row,
      last_seen = last_seen row,
      occurrence_count = occurrence_count row\<rparr>"

text \<open>
  \<^verbatim>\<open>SELECT * FROM episodes WHERE project_hash = ? AND problem_summary = ? LIMIT 1\<close>:
  the first matching row in rowid order.
\<close>

definition findSimilarEpisode :: "Database \<Rightarrow> string \<Rightarrow> string \<Rightarrow> real Episode option" where
  "findSimilarEpisode db projectHash problemSummary =
     (case filter (\<lambda>row. ep_project_hash row = projectHash \<and> problem_summary row = problemSummary)
             (episodes db) of
        [] \<Rightarrow> None
      | row # _ \<Rightarrow> Some (rowToEpisode row))"

text \<open>
  \<^verbatim>\<open>SELECT * FROM episodes WHERE project_hash = ? ORDER BY last_seen DESC\<close>; rows with
  equal \<^verbatim>\<open>last_seen\<close> stay in rowid order.
\<close>

definition getEpisodesByProject :: "Database \<Rightarrow> string \<Rightarrow> real Episode list" where
  "getEpisodesByProject db projectHash =
     map rowToEpisode
       (sort_key (\<lambda>row. - last_seen row)
          (filter (\<lambda>row. ep_project_hash row = projectHash) (episodes db)))"

text \<open>The \<^verbatim>\<open>id\<close> of the argument is not read (\<^verbatim>\<open>Omit<RawEvent, 'id'>\<close>).\<close>

definition insertRawEvent :: "Database \<Rightarrow> RawEvent \<Rightarrow> int \<times> Database" where
  "insertRawEvent db ev =
     (let newId = raw_events_seq db + 1
      in (newId, db\<lparr>raw_events := raw_events db @ [ev\<lparr>raw_id := Some newId\<rparr>],
                    raw_events_seq := newId\<rparr>))"

text \<open>
  \<^verbatim>\<open>SELECT * FROM raw_events WHERE cwd = ? AND timestamp > ? ORDER BY timestamp DESC\<close>.
\<close>

definition getRecentEventsForDirectory :: "Database \<Rightarrow> string \<Rightarrow> int \<Rightarrow> RawEvent list" where
  "getRecentEventsForDirectory db dir since =
     sort_key (\<lambda>row. - raw_timestamp row)
       (filter (\<lambda>row. raw_cwd row = dir \<and> since < raw_timestamp row) (raw_events db))"

subsection \<open>Classification and signatures (extraction/index.ts)\<close>

text \<open>\<^verbatim>\<open>CryptoJS.MD5(cwd).toString().substring(0, 12)\<close>, the digest being a parameter.\<close>

definition hashProjectPath :: "(string \<Rightarrow> string) \<Rightarrow> string \<Rightarrow> string" where
  "hashProjectPath md5 dir = take 12 (md5 dir)"

definition isError :: "string \<Rightarrow> int \<Rightarrow> bool" where
  "isError err exitCode =
     (if exitCode \<noteq> 0 then True
      else (let lowerStderr = toLowerCase err
            in list_ex (\<lambda>pattern. includes_str lowerStderr (toLowerCase pattern)) ERROR_PATTERNS))"

text \<open>
  The three regular expressions of \<^verbatim>\<open>extractErrorSignature\<close>. Each is modelled by a
  matcher that tries the expression at the start of a suffix of the input and returns
  capture group 1; \<open>firstMatch\<close> runs the search from the left, as \<^verbatim>\<open>String.match\<close> does.
\<close>

fun firstMatch :: "(string \<Rightarrow> string option) \<Rightarrow> string \<Rightarrow> string option" where
  "firstMatch m [] = m []"
| "firstMatch m (c # cs) = (case m (c # cs) of Some g \<Rightarrow> Some g | None \<Rightarrow> firstMatch m cs)"

text \<open>
  \<^verbatim>\<open>(Error|Exception)\<close> under the flag \<^verbatim>\<open>i\<close>. The two alternatives differ in their second
  letter, so at most one of them matches at a position.
\<close>

definition keywordAt :: "string \<Rightarrow> string option" where
  "keywordAt t =
     (if toLowerCase (take 5 t) = ''error'' then Some (take 5 t)
      else if toLowerCase (take 9 t) = ''exception'' then Some (take 9 t)
      else None)"

text \<open>
  \<^verbatim>\<open>(.+?)(?:\n|$)\<close>: the lazy group grows over characters that are not line terminators
  until a line feed or the end of the input follows; it needs at least one character.
\<close>

definition messageAt :: "string \<Rightarrow> bool" where
  "messageAt r =
     (takeWhile (\<lambda>c. \<not> isLineTerminator c) r \<noteq> [] \<and>
      (case dropWhile (\<lambda>c. \<not> isLineTerminator c) r of
         [] \<Rightarrow> True
       | c # _ \<Rightarrow> c = CHR 0x0A))"

text \<open>
  \<^verbatim>\<open>\s*(.+?)(?:\n|$)\<close>: the white space may give back characters to the group, so every
  number of skipped characters up to the length of the run is tried.
\<close>

definition afterColon :: "string \<Rightarrow> bool" where
  "afterColon r =
     list_ex (\<lambda>k. messageAt (drop k r)) [0 ..< Suc (length (takeWhile isSpace r))]"

text \<open>\<^verbatim>\<open>/(Error|Exception):\s*(.+?)(?:\n|$)/i\<close> at the start of \<open>t\<close>; group 1 is the keyword.\<close>

definition matchErrorColonAt :: "string \<Rightarrow> string option" where
  "matchErrorColonAt t =
     (case keywordAt t of
        None \<Rightarrow> None
      | Some kw \<Rightarrow>
          (case drop (length kw) t of
             [] \<Rightarrow> None
           | c # r \<Rightarrow> if c = CHR '':'' \<and> afterColon r then Some kw else None))"

text \<open>\<^verbatim>\<open>/(ERR_\w+)/i\<close> at the start of \<open>t\<close>: the four characters and the longest word run.\<close>

definition matchErrCodeAt :: "string \<Rightarrow> string option" where
  "matchErrCodeAt t =
     (if toLowerCase (take 4 t) = ''err_'' \<and> takeWhile isWordChar (drop 4 t) \<noteq> []
      then Some (take 4 t @ takeWhile isWordChar (drop 4 t))
      else None)"

text \<open>
  \<^verbatim>\<open>/(\w+\s+error)/i\<close> at the start of \<open>t\<close>. A word character is never white space and
  white space never starts \<^verbatim>\<open>error\<close>, so only the longest word run and the longest
  white-space run can lead to a match.
\<close>

definition matchWordErrorAt :: "string \<Rightarrow> string option" where
  "matchWordErrorAt t =
     (let w = takeWhile isWordChar t;
          r1 = dropWhile isWordChar t;
          sp = takeWhile isSpace r1;
          r2 = dropWhile isSpace r1
      in if w \<noteq> [] \<and> sp \<noteq> [] \<and> toLowerCase (take 5 r2) = ''error''
         then Some (w @ sp @ take 5 r2)
         else None)"

text \<open>
  \<^verbatim>\<open>stderr.split('\n').filter(l => l.trim())\<close> and \<^verbatim>\<open>lines[0] || ''\<close>.
\<close>

definition firstNonBlankLine :: "string \<Rightarrow> string" where
  "firstNonBlankLine err =
     (case filter (\<lambda>l. trim l \<noteq> []) (splitOn (CHR 0x0A) err) of
        [] \<Rightarrow> []
      | l # _ \<Rightarrow> l)"

text \<open>The second parameter is not read by the source either.\<close>

definition extractErrorSignature :: "string \<Rightarrow> string \<Rightarrow> string" where
  "extractErrorSignature err cmd =
     (let firstLine = firstNonBlankLine err
      in case firstMatch matchErrorColonAt err of
           Some g \<Rightarrow> take 100 g
         | None \<Rightarrow>
             (case firstMatch matchErrCodeAt err of
                Some g \<Rightarrow> take 100 g
              | None \<Rightarrow>
                  (case firstMatch matchWordErrorAt err of
                     Some g \<Rightarrow> take 100 g
                   | None \<Rightarrow> take 100 firstLine)))"

subsection \<open>Keywords and embedding text (storage/embeddings.ts)\<close>

definition commonWords :: "string list" where
  "commonWords =
     [''the'', ''a'', ''an'', ''and'', ''or'', ''but'', ''in'', ''on'', ''at'', ''to'', ''for'',
      ''of'', ''with'', ''by'', ''from'', ''is'', ''was'', ''are'', ''were'', ''been'', ''be'',
      ''have'', ''has'', ''had'', ''do'', ''does'', ''did'', ''will'', ''would'', ''could'',
      ''should'', ''may'', ''might'', ''must'', ''can'', ''this'', ''that'', ''these'',
      ''those'', ''i'', ''you'', ''he'', ''she'', ''it'', ''we'', ''they'', ''what'', ''which'',
      ''who'', ''when'', ''where'', ''why'', ''how'', ''all'', ''each'', ''every'', ''both'',
      ''few'', ''more'', ''most'', ''other'', ''some'', ''such'', ''no'', ''nor'', ''not'',
      ''only'', ''own'', ''same'', ''so'', ''than'', ''too'', ''very'', ''just'', ''error'',
      ''failed'', ''fail'', ''failed'', ''file'', ''module'', ''import'', ''export'']"

text \<open>\<^verbatim>\<open>replace(/[^a-z0-9\s]/g, ' ')\<close> on one character.\<close>

definition normalizeChar :: "char \<Rightarrow> char" where
  "normalizeChar c = (if isLowerAscii c \<or> isDigit c \<or> isSpace c then c else CHR '' '')"

definition extractKeywords :: "string \<Rightarrow> string list" where
  "extractKeywords text =
     (let ws = filter (\<lambda>w. 2 < length w \<and> w \<notin> set commonWords)
                 (splitWs (map normalizeChar (toLowerCase text)))
      in take 10 (dedupe ws))"

definition generateEmbeddingText :: "real Episode \<Rightarrow> string" where
  "generateEmbeddingText ep =
     join [CHR 0x0A]
       [''Problem: '' @ problem_summary ep,
        ''Directory: '' @ directory ep,
        ''Environment: '' @ environment ep,
        ''Fix: '' @ fix_sequence ep,
        ''Keywords: '' @ ep_keywords ep]"

subsection \<open>Episode extraction (extraction/index.ts)\<close>

text \<open>The fields \<^verbatim>\<open>extractEpisode\<close> and \<^verbatim>\<open>processEvent\<close> copy from an event into a row.\<close>

definition rawOfTerminal :: "int option \<Rightarrow> TerminalEvent \<Rightarrow> RawEvent" where
  "rawOfTerminal link ev =
     \<lparr>raw_id = None,
      episode_id = link,
      raw_timestamp = timestamp ev,
      raw_cwd = cwd ev,
      raw_git_branch = git_branch ev,
      raw_command = command ev,
      raw_exit_code = exit_code ev,
      raw_stderr = stderr ev,
      raw_stdout_truncated = stdout_truncated ev,
      raw_session_id = session_id ev\<rparr>"

definition relink :: "int option \<Rightarrow> RawEvent \<Rightarrow> RawEvent" where
  "relink link ev = ev\<lparr>raw_id := None, episode_id := link\<rparr>"

text \<open>The loop over \<^verbatim>\<open>allEvents\<close> that stores each event linked to the episode.\<close>

fun insertLinked :: "int \<Rightarrow> RawEvent list \<Rightarrow> Database \<Rightarrow> Database" where
  "insertLinked newId [] db = db"
| "insertLinked newId (event # rest) db =
     insertLinked newId rest (snd (insertRawEvent db (relink (Some newId) event)))"

text \<open>
  The fix sequence of \<^verbatim>\<open>extractEpisode\<close>: \<^verbatim>\<open>filter\<close>, \<^verbatim>\<open>map\<close>, \<^verbatim>\<open>slice(0, 5)\<close> and
  \<^verbatim>\<open>fixCommands.join(' && ') || 'Unknown fix'\<close>, where an empty string is falsy.
\<close>

definition buildFixSequence :: "RawEvent list \<Rightarrow> string" where
  "buildFixSequence followingCommands =
     (let fixCommands = take 5 (map raw_command (filter (\<lambda>e. raw_exit_code e = 0) followingCommands));
          joined = join '' && '' fixCommands
      in if joined = [] then ''Unknown fix'' else joined)"

text \<open>
  \<^verbatim>\<open>extractEpisode\<close>. Parameters: the digest \<open>md5\<close>, the clock reading \<open>now\<close>, the
  platform description \<open>env\<close> and the embedding provider \<open>genEmbedding\<close>. The result is the
  returned episode (\<open>None\<close> for \<^verbatim>\<open>null\<close>) and the database afterwards.
\<close>

definition extractEpisode ::
  "(string \<Rightarrow> string) \<Rightarrow> int \<Rightarrow> string \<Rightarrow> (string \<Rightarrow> real list option) \<Rightarrow>
   TerminalEvent \<Rightarrow> RawEvent list \<Rightarrow> Database \<Rightarrow> real Episode option \<times> Database" where
  "extractEpisode md5 now env genEmbedding errorEvent followingCommands db =
     (if followingCommands = [] then (None, db)
      else
        (let problemSignature = extractErrorSignature (stderr errorEvent) (command errorEvent);
             projectHash = hashProjectPath md5 (cwd errorEvent)
         in case findSimilarEpisode db projectHash problemSignature of
              Some existing \<Rightarrow>
                (None,
                 (case ep_id existing of
                    None \<Rightarrow> db
                  | Some i \<Rightarrow>
                      updateEpisode db i
                        \<lparr>upd_last_seen = Some now,
                         upd_occurrence_count = Some (occurrence_count existing + 1),
                         upd_embedding = None\<rparr>))
            | None \<Rightarrow>
                (let fixSequence = buildFixSequence followingCommands;
                     keywordsText = command errorEvent @ '' '' @ stderr errorEvent @ '' '' @ fixSequence;
                     kws = join '', '' (extractKeywords keywordsText);
                     draft = \<lparr>ep_id = None,
                              ep_project_hash = projectHash,
                              directory = cwd errorEvent,
                              ep_git_branch = git_branch errorEvent,
                              problem_summary = problemSignature,
                              environment = env,
                              fix_sequence = fixSequence,
                              ep_keywords = kws,
                              embedding = None,
                              first_seen = timestamp errorEvent,
                              last_seen = now,
                              occurrence_count = 1\<rparr>;
                     ep = (case genEmbedding (generateEmbeddingText draft) of
                             None \<Rightarrow> draft
                           | Some v \<Rightarrow> draft\<lparr>embedding := Some v\<rparr>);
                     (newId, db1) = insertEpisode db ep;
                     allEvents = rawOfTerminal None errorEvent # followingCommands;
                     db2 = insertLinked newId allEvents db1
                 in (Some (ep\<lparr>ep_id := Some newId\<rparr>), db2))))"

text \<open>
  \<^verbatim>\<open>processEvent\<close>. \<open>nowP\<close> is the clock reading taken for the five-minute window,
  \<open>now\<close> the later one taken inside \<^verbatim>\<open>extractEpisode\<close>.
\<close>

definition processEvent ::
  "(string \<Rightarrow> string) \<Rightarrow> int \<Rightarrow> int \<Rightarrow> string \<Rightarrow> (string \<Rightarrow> real list option) \<Rightarrow>
   TerminalEvent \<Rightarrow> Database \<Rightarrow> real Episode option \<times> Database" where
  "processEvent md5 nowP now env genEmbedding event db =
     (let db1 = snd (insertRawEvent db (rawOfTerminal None event))
      in if \<not> isError (stderr event) (exit_code event) then (None, db1)
         else
           (let fiveMinutesAgo = nowP - 5 * 60 * 1000;
                recentEvents = getRecentEventsForDirectory db1 (cwd event) fiveMinutesAgo;
                followingEvents =
                  sort_key raw_timestamp
                    (filter (\<lambda>e. timestamp event < raw_timestamp e) recentEvents)
            in extractEpisode md5 now env genEmbedding event followingEvents db1))"

subsection \<open>Retrieval (retrieval/index.ts)\<close>

definition CONFIDENCE_THRESHOLD :: real where
  "CONFIDENCE_THRESHOLD = 0.75"

definition shouldRetrieve :: "RetrievalContext \<Rightarrow> bool" where
  "shouldRetrieve context =
     (if ctx_exit_code context \<noteq> 0 then True
      else (let lowerStderr = toLowerCase (ctx_stderr context)
            in if list_ex (\<lambda>pattern. includes_str lowerStderr (toLowerCase pattern)) ERROR_PATTERNS
               then True else False))"

text \<open>The body of the loop over \<^verbatim>\<open>projectEpisodes\<close>: similarity and confidence of one episode.\<close>

definition scoreEpisode ::
  "string \<Rightarrow> real list option \<Rightarrow> RetrievalContext \<Rightarrow> real Episode \<Rightarrow> RetrievalResult" where
  "scoreEpisode projectHash currentEmbedding context ep =
     (let sim = (case (currentEmbedding, embedding ep) of
                   (Some q, Some v) \<Rightarrow> cosineSimilarity q v
                 | _ \<Rightarrow> textSimilarity (problem_summary ep @ '' '' @ ep_keywords ep)
                                        (ctx_stderr context @ '' '' @ ctx_command context));
          projectMatch = (ep_project_hash ep = projectHash);
          commandSimilarity = textSimilarity (problem_summary ep) (ctx_stderr context)
      in \<lparr>episode = ep, similarity = sim,
          confidence = calculateConfidence sim projectMatch commandSimilarity\<rparr>)"

text \<open>The loop itself: a result is pushed when its confidence reaches the threshold.\<close>

fun scoreLoop ::
  "string \<Rightarrow> real list option \<Rightarrow> RetrievalContext \<Rightarrow> real Episode list \<Rightarrow>
   RetrievalResult list \<Rightarrow> RetrievalResult list" where
  "scoreLoop projectHash currentEmbedding context [] results = results"
| "scoreLoop projectHash currentEmbedding context (ep # rest) results =
     (let r = scoreEpisode projectHash currentEmbedding context ep
      in scoreLoop projectHash currentEmbedding context rest
           (if CONFIDENCE_THRESHOLD \<le> confidence r then results @ [r] else results))"

text \<open>
  \<^verbatim>\<open>retrieveSimilarEpisodes\<close>; \<^verbatim>\<open>Array.prototype.sort\<close> is stable, as \<open>sort_key\<close> is.
\<close>

definition retrieveSimilarEpisodes ::
  "(string \<Rightarrow> string) \<Rightarrow> (string \<Rightarrow> real list option) \<Rightarrow> Database \<Rightarrow>
   RetrievalContext \<Rightarrow> nat \<Rightarrow> RetrievalResult list" where
  "retrieveSimilarEpisodes md5 genEmbedding db context maxResults =
     (let projectHash = hashProjectPath md5 (ctx_cwd context);
          projectEpisodes = getEpisodesByProject db projectHash
      in if projectEpisodes = [] then []
         else
           (let currentErrorText =
                  ''Error: '' @ ctx_stderr context @ [CHR 0x0A] @ ''Command: '' @ ctx_command context;
                currentEmbedding = genEmbedding currentErrorText;
                results = scoreLoop projectHash currentEmbedding context projectEpisodes []
            in take maxResults (sort_key (\<lambda>r. - confidence r) results)))"

text \<open>Decimal digits of a number, for \<^verbatim>\<open>${episode.occurrence_count}\<close>.\<close>

fun showNat :: "nat \<Rightarrow> string" where
  "showNat n =
     (if n < 10 then [''0123456789'' ! n]
      else showNat (n div 10) @ [''0123456789'' ! (n mod 10)])"

definition showInt :: "int \<Rightarrow> string" where
  "showInt i = (if i < 0 then CHR ''-'' # showNat (nat (- i)) else showNat (nat i))"

text \<open>
  What \<^verbatim>\<open>formatRetrievalResult\<close> takes from the runtime's locale: the date string of a
  time stamp and \<^verbatim>\<open>toFixed(0)\<close> of a number.
\<close>

record Locale =
  toLocaleDateString :: "int \<Rightarrow> string"
  toFixed0 :: "real \<Rightarrow> string"

text \<open>The thought-balloon sign that opens the message, as its UTF-8 bytes.\<close>

definition thoughtBalloon :: string where
  "thoughtBalloon = [CHR 0xF0, CHR 0x9F, CHR 0x92, CHR 0xAD]"

definition formatRetrievalResult :: "Locale \<Rightarrow> RetrievalResult \<Rightarrow> string" where
  "formatRetrievalResult loc result =
     (let ep = episode result;
          dateStr = toLocaleDateString loc (last_seen ep)
      in trim
           ([CHR 0x0A] @ thoughtBalloon @ '' You hit something similar before:'' @ [CHR 0x0A]
            @ [CHR 0x0A]
            @ ''Last time ('' @ dateStr @ ''):'' @ [CHR 0x0A]
            @ ''- Problem: '' @ problem_summary ep @ [CHR 0x0A]
            @ ''- Fix: '' @ fix_sequence ep @ [CHR 0x0A]
            @ [CHR 0x0A]
            @ ''Occurrences: '' @ showInt (occurrence_count ep) @ [CHR 0x0A]
            @ ''Confidence: '' @ toFixed0 loc (confidence result * 100) @ ''%'' @ [CHR 0x0A]
            @ ''  ''))"

text \<open>\<^verbatim>\<open>s.split(sep)\<close> for a separator string; an empty separator is not used by the source.\<close>

fun splitStr :: "string \<Rightarrow> string \<Rightarrow> string list" where
  "splitStr sep [] = [[]]"
| "splitStr sep (x # xs) =
     (if sep \<noteq> [] \<and> prefix sep (x # xs) then [] # splitStr sep (drop (length sep - 1) xs)
      else (case splitStr sep xs of [] \<Rightarrow> [[x]] | y # ys \<Rightarrow> (x # y) # ys))"

definition suggestNextStep :: "RetrievalResult \<Rightarrow> string option" where
  "suggestNextStep result =
     (let fixCommands = splitStr '' && '' (fix_sequence (episode result))
      in case fixCommands of
           [] \<Rightarrow> None
         | first # _ \<Rightarrow> if trim first \<noteq> [] then Some (trim first) else None)"

record Suggestion =
  shouldShow :: bool
  message :: "string option"
  suggestedCommand :: "string option"

definition noSuggestion :: Suggestion where
  "noSuggestion = \<lparr>shouldShow = False, message = None, suggestedCommand = None\<rparr>"

definition retrieveAndSuggest ::
  "(string \<Rightarrow> string) \<Rightarrow> (string \<Rightarrow> real list option) \<Rightarrow> Locale \<Rightarrow> Database \<Rightarrow>
   RetrievalContext \<Rightarrow> Suggestion" where
  "retrieveAndSuggest md5 genEmbedding loc db context =
     (if \<not> shouldRetrieve context then noSuggestion
      else
        (case retrieveSimilarEpisodes md5 genEmbedding db context 1 of
           [] \<Rightarrow> noSuggestion
         | topResult # _ \<Rightarrow>
             \<lparr>shouldShow = True,
              message = Some (formatRetrievalResult loc topResult),
              suggestedCommand = suggestNextStep topResult\<rparr>))"

subsection \<open>What the regular expressions accept\<close>

text \<open>
  The three regular expressions read as specifications: \<open>accepts\<dots> g t\<close> says that the
  expression matches at the start of \<open>t\<close> with capture group 1 equal to \<open>g\<close>. They are
  stated from the text of the expressions and are compared with the matchers above.
\<close>







subsection \<open>Invariants of the store\<close>

text \<open>
  The \<^verbatim>\<open>INTEGER PRIMARY KEY AUTOINCREMENT\<close> constraint of the \<^verbatim>\<open>episodes\<close> table: every
  row has an id, no two rows share one, and no id exceeds the counter.
\<close>

definition wfDb :: "Database \<Rightarrow> bool" where
  "wfDb db =
     (distinct (map ep_id (episodes db)) \<and>
      list_all (\<lambda>row. case ep_id row of None \<Rightarrow> False | Some i \<Rightarrow> i \<le> episodes_seq db)
        (episodes db))"

text \<open>At most one episode per pair of project identity and problem signature.\<close>

definition onePerSignature :: "Database \<Rightarrow> bool" where
  "onePerSignature db =
     distinct (map (\<lambda>row. (ep_project_hash row, problem_summary row)) (episodes db))"

text \<open>\<^verbatim>\<open>DELETE FROM episodes WHERE project_hash = ?\<close>.\<close>

definition clearProject :: "Database \<Rightarrow> string \<Rightarrow> Database" where
  "clearProject db projectHash =
     db\<lparr>episodes := filter (\<lambda>row. ep_project_hash row \<noteq> projectHash) (episodes db)\<rparr>"

text \<open>
  The stores the program can be in: the empty store, and what \<^verbatim>\<open>processEvent\<close> (the only
  caller of \<^verbatim>\<open>extractEpisode\<close>) and \<^verbatim>\<open>clearProject\<close> make of a store it can be in.
\<close>

inductive reachable :: "Database \<Rightarrow> bool" where
  start: "reachable emptyDb"
| event: "reachable db \<Longrightarrow>
          reachable (snd (processEvent md5 nowP now env genEmbedding event db))"
| clear: "reachable db \<Longrightarrow> reachable (clearProject db projectHash)"

text \<open>A recurrence as the claims describe it: a new last-seen time and one more occurrence.\<close>

definition bumped :: "int \<Rightarrow> 8 word Episode \<Rightarrow> 8 word Episode" where
  "bumped now row = row\<lparr>last_seen := now, occurrence_count := occurrence_count row + 1\<rparr>"


text \<open>
  The scored candidates of a retrieval context: every episode of the context's project
  with its similarity and confidence, before the threshold is applied.
\<close>

definition candidates ::
  "(string \<Rightarrow> string) \<Rightarrow> (string \<Rightarrow> real list option) \<Rightarrow> Database \<Rightarrow>
   RetrievalContext \<Rightarrow> RetrievalResult list" where
  "candidates md5 genEmbedding db context =
     map (scoreEpisode (hashProjectPath md5 (ctx_cwd context))
            (genEmbedding (''Error: '' @ ctx_stderr context @ [CHR 0x0A] @ ''Command: ''
                           @ ctx_command context))
            context)
       (getEpisodesByProject db (hashProjectPath md5 (ctx_cwd context)))"

subsection \<open>Concrete inputs\<close>

text \<open>
  A failing \<^verbatim>\<open>make\<close> in \<^verbatim>\<open>/p\<close>, a later successful command in the same directory, and
  a store that already remembers the failure. The digest used with them is the identity.
\<close>

definition exEvent :: TerminalEvent where
  "exEvent = \<lparr>timestamp = 1000, cwd = ''/p'', git_branch = None, command = ''make'',
              exit_code = 2, stderr = ''boom'', stdout_truncated = [], session_id = ''s'',
              project_hash = ''/p''\<rparr>"

definition exFollow :: RawEvent where
  "exFollow = \<lparr>raw_id = Some 1, episode_id = None, raw_timestamp = 2000, raw_cwd = ''/p'',
               raw_git_branch = None, raw_command = ''make clean'', raw_exit_code = 0,
               raw_stderr = [], raw_stdout_truncated = [], raw_session_id = ''s''\<rparr>"

definition exRow :: "8 word Episode" where
  "exRow = \<lparr>ep_id = Some 1, ep_project_hash = ''/p'', directory = ''/p'', ep_git_branch = None,
            problem_summary = ''boom'', environment = [], fix_sequence = ''make clean'',
            ep_keywords = ''make, boom, clean'', embedding = None, first_seen = 1000,
            last_seen = 2500, occurrence_count = 1\<rparr>"

definition exDb :: Database where
  "exDb = \<lparr>episodes = [exRow], raw_events = [exFollow], episodes_seq = 1, raw_events_seq = 1\<rparr>"

definition exEventsDb :: Database where
  "exEventsDb = \<lparr>episodes = [], raw_events = [exFollow], episodes_seq = 0, raw_events_seq = 1\<rparr>"

text \<open>
  A store that remembers a "no file" failure of \<^verbatim>\<open>/p\<close>, and three contexts in \<^verbatim>\<open>/p\<close>: a
  command that succeeded with the same text on its error stream, the same failure
  again, and an unrelated failure.
\<close>

definition exNoFileRow :: "8 word Episode" where
  "exNoFileRow = \<lparr>ep_id = Some 1, ep_project_hash = ''/p'', directory = ''/p'',
                  ep_git_branch = None, problem_summary = ''no file'', environment = [],
                  fix_sequence = ''ls && make'', ep_keywords = [], embedding = None,
                  first_seen = 1000, last_seen = 2500, occurrence_count = 3\<rparr>"

definition exNoFileDb :: Database where
  "exNoFileDb = \<lparr>episodes = [exNoFileRow], raw_events = [], episodes_seq = 1, raw_events_seq = 0\<rparr>"

definition exQuietCtx :: RetrievalContext where
  "exQuietCtx = \<lparr>ctx_cwd = ''/p'', ctx_command = [], ctx_exit_code = 0, ctx_stderr = ''no file'',
                 ctx_git_branch = None, ctx_project_hash = ''/p''\<rparr>"

definition exLoudCtx :: RetrievalContext where
  "exLoudCtx = exQuietCtx\<lparr>ctx_exit_code := 1\<rparr>"

definition exOtherCtx :: RetrievalContext where
  "exOtherCtx = exQuietCtx\<lparr>ctx_exit_code := 1, ctx_stderr := ''zzz''\<rparr>"

definition exLocale :: Locale where
  "exLocale = \<lparr>toLocaleDateString = (\<lambda>t. ''1/1/1970''), toFixed0 = (\<lambda>x. showInt \<lfloor>x + 1 / 2\<rfloor>)\<rparr>"

text \<open>An episode whose embedding has fractional components, as an embedding provider returns.\<close>

definition exEmbedded :: "real Episode" where
  "exEmbedded = \<lparr>ep_id = None, ep_project_hash = ''/p'', directory = ''/p'', ep_git_branch = None,
                 problem_summary = ''boom'', environment = [], fix_sequence = ''make clean'',
                 ep_keywords = ''make, boom, clean'', embedding = Some [0.5, 0.25],
                 first_seen = 1000, last_seen = 2500, occurrence_count = 1\<rparr>"


section \<open>Properties\<close>

subsection \<open>Token sets and the Jaccard index\<close>

lemma dedupe_set: "set (dedupe xs) = set xs"
proof (induction xs rule: dedupe.induct)
  case 1
  show ?case by simp
next
  case (2 x xs)
  then show ?case by auto
qed

lemma dedupe_distinct: "distinct (dedupe xs)"
proof (induction xs rule: dedupe.induct)
  case 1
  show ?case by simp
next
  case (2 x xs)
  then show ?case by (simp add: dedupe_set)
qed

lemma dedupe_length_card: "length (dedupe xs) = card (set xs)"
  using dedupe_distinct [of xs] dedupe_set [of xs] distinct_card by fastforce

lemma splitWsFrom_nonempty: "splitWsFrom f s \<noteq> []"
  by (induction s arbitrary: f) (auto split: list.splits)

lemma splitWs_nonempty: "splitWs s \<noteq> []"
  by (simp add: splitWs_def splitWsFrom_nonempty)

text \<open>
  The list computation of \<^verbatim>\<open>textSimilarity\<close> is the Jaccard index of the two token sets.
  The union is never empty, because splitting always yields at least one token, so the
  quotient never divides by zero.
\<close>

lemma textSimilarity_jaccard:
  "textSimilarity t1 t2 =
     real (card (set (splitWs (toLowerCase t1)) \<inter> set (splitWs (toLowerCase t2))))
     / real (card (set (splitWs (toLowerCase t1)) \<union> set (splitWs (toLowerCase t2))))"
proof -
  have "set (filter (\<lambda>x. x \<in> set (dedupe (splitWs (toLowerCase t2)))) (dedupe (splitWs (toLowerCase t1))))
        = set (splitWs (toLowerCase t1)) \<inter> set (splitWs (toLowerCase t2))"
    by (auto simp: dedupe_set)
  then show ?thesis
    by (simp add: textSimilarity_def Let_def dedupe_length_card dedupe_set)
qed

lemma textSimilarity_union_nonempty:
  "card (set (splitWs (toLowerCase t1)) \<union> set (splitWs (toLowerCase t2))) \<noteq> 0"
  using splitWs_nonempty [of "toLowerCase t1"] by simp

text \<open>
  Claim C5, as stated: \<^verbatim>\<open>textSimilarity(s, s) = 1\<close> for every non-empty \<open>s\<close>, and
  \<^verbatim>\<open>textSimilarity("", "") = 0\<close>. The second half fails: \<^verbatim>\<open>"".split(/\s+/)\<close> is the
  one-element array holding the empty token, so both token sets are the singleton of the
  empty token and the quotient is 1/1.
\<close>

theorem textSimilarity_empty_counterexample:
  "\<not> (textSimilarity [] [] = 0)"
  by (simp add: textSimilarity_def splitWs_def toLowerCase_def)

text \<open>
  Claim C5, amended: \<^verbatim>\<open>textSimilarity(s, s) = 1\<close> for every string \<open>s\<close>, the empty string
  included; in particular \<^verbatim>\<open>textSimilarity("", "") = 1\<close>. The function is the Jaccard index
  of the two sets of lower-cased white-space tokens, and the union of these sets is never
  empty.
\<close>

theorem textSimilarity_self:
  "textSimilarity s s = 1 \<and> textSimilarity [] [] = 1
   \<and> textSimilarity t1 t2 =
       real (card (set (splitWs (toLowerCase t1)) \<inter> set (splitWs (toLowerCase t2))))
       / real (card (set (splitWs (toLowerCase t1)) \<union> set (splitWs (toLowerCase t2))))
   \<and> card (set (splitWs (toLowerCase t1)) \<union> set (splitWs (toLowerCase t2))) \<noteq> 0"
proof -
  have "card (set (splitWs (toLowerCase t))) \<noteq> 0" for t
    using splitWs_nonempty [of "toLowerCase t"] by simp
  then have "textSimilarity t t = 1" for t
    by (simp add: textSimilarity_jaccard)
  then show ?thesis
    using textSimilarity_jaccard [of t1 t2] textSimilarity_union_nonempty [of t1 t2] by simp
qed

subsection \<open>Confidence\<close>

subsubsection \<open>Rounding\<close>

lemma bits_pos: "0 < n \<Longrightarrow> bits n = Suc (bits (n div 2))"
  by (subst bits.simps) simp

lemma bits_bounds:
  "0 < n \<Longrightarrow> 2 ^ (bits n - 1) \<le> n \<and> n < 2 ^ bits n"
proof (induction n rule: bits.induct)
  case (1 n)
  note b = bits_pos [OF "1.prems"]
  show ?case
  proof (cases "n div 2 = 0")
    case True
    with "1.prems" have n1: "n = Suc 0" by (simp add: div_eq_0_iff)
    have "bits (Suc 0) = Suc 0"
      by (simp add: bits.simps [of "Suc 0"] bits.simps [of 0])
    then show ?thesis by (simp add: n1)
  next
    case False
    then have pos: "0 < n div 2" by simp
    from "1.IH" [OF _ pos] "1.prems"
    have ih: "2 ^ (bits (n div 2) - 1) \<le> n div 2" "n div 2 < 2 ^ bits (n div 2)" by simp_all
    have bp: "0 < bits (n div 2)" using bits_pos [OF pos] by simp
    then have e: "2 ^ (bits n - 1) = 2 * (2::nat) ^ (bits (n div 2) - 1)"
      by (cases "bits (n div 2)") (simp_all add: b)
    have "2 * (n div 2) \<le> n" by simp
    with ih(1) have lo: "2 ^ (bits n - 1) \<le> n" unfolding e by linarith
    have "n < 2 * (n div 2) + 2" by presburger
    with ih(2) have hi: "n < 2 ^ bits n" unfolding b by simp
    from lo hi show ?thesis by simp
  qed
qed


lemma roundEven_err:
  "2 * \<bar>int (roundEven n k) * 2 ^ k - int n\<bar> \<le> 2 ^ k"
proof -
  let ?q = "n div 2 ^ k" and ?r = "n mod 2 ^ k"
  have "n = ?q * 2 ^ k + ?r" by (rule div_mult_mod_eq [symmetric])
  then have "int n = int (?q * 2 ^ k + ?r)" by simp
  then have n: "int n = int ?q * 2 ^ k + int ?r" by simp
  have "?r < 2 ^ k" by simp
  then have "int ?r < int (2 ^ k)" by (simp only: of_nat_less_iff)
  then have r: "int ?r < 2 ^ k" by simp
  show ?thesis
  proof (cases "2 ^ k < 2 * ?r \<or> (2 * ?r = 2 ^ k \<and> odd ?q)")
    case True
    then have up: "roundEven n k = ?q + 1" by (simp add: roundEven_def Let_def)
    from True have "2 ^ k \<le> 2 * ?r" by auto
    then have "int (2 ^ k) \<le> int (2 * ?r)" by (simp only: of_nat_le_iff)
    then have "(2::int) ^ k \<le> 2 * int ?r" by simp
    then show ?thesis
      unfolding up using n r by (simp add: algebra_simps)
  next
    case False
    then have dn: "roundEven n k = ?q" by (simp add: roundEven_def Let_def)
    from False have "2 * ?r \<le> 2 ^ k" by auto
    then have "int (2 * ?r) \<le> int (2 ^ k)" by (simp only: of_nat_le_iff)
    then have "2 * int ?r \<le> 2 ^ k" by simp
    then show ?thesis
      unfolding dn using n r by (simp add: algebra_simps)
  qed
qed

lemma round53_err:
  "\<bar>valof (round53 (m, e)) - real_of_int m * 2 powi e\<bar>
   \<le> 2 powi (- 53) * \<bar>real_of_int m * 2 powi e\<bar>"
proof (cases "bits (nat \<bar>m\<bar>) \<le> 53")
  case True
  then show ?thesis by (simp add: round53_def valof_def Let_def)
next
  case False
  define n where "n = nat \<bar>m\<bar>"
  define k where "k = bits n - 53"
  define q where "q = roundEven n k"
  from False have b: "53 < bits n" by (simp add: n_def)
  then have npos: "0 < n" by (cases "n = 0") (simp_all add: bits.simps [of 0])
  have bk: "bits n = k + 53" using b by (simp add: k_def)
  from bits_bounds [OF npos] have "2 ^ (k + 52) \<le> n" by (simp add: bk add.commute)
  then have "real (2 ^ (k + 52)) \<le> real n" by (simp only: of_nat_le_iff)
  then have lo: "2 ^ k * 2 ^ 52 \<le> real n" by (simp add: power_add)
  have "2 * \<bar>int q * 2 ^ k - int n\<bar> \<le> 2 ^ k" unfolding q_def by (rule roundEven_err)
  then have "real_of_int (2 * \<bar>int q * 2 ^ k - int n\<bar>) \<le> real_of_int (2 ^ k)"
    by (simp only: of_int_le_iff)
  then have err: "2 * \<bar>real q * 2 ^ k - real n\<bar> \<le> 2 ^ k" by simp
  have m: "real_of_int m = real_of_int (sgn m) * real n"
    by (simp add: n_def sgn_if)
  have s1: "\<bar>real_of_int (sgn m)\<bar> = 1" using npos by (simp add: n_def sgn_if)
  have r: "round53 (m, e) = (sgn m * int q, e + int k)"
    using False by (simp add: round53_def Let_def n_def k_def q_def)
  have p: "(2::real) powi (e + int k) = 2 powi e * 2 ^ k"
    by (simp add: power_int_add)
  have "valof (round53 (m, e)) - real_of_int m * 2 powi e
        = real_of_int (sgn m) * (real q * 2 ^ k - real n) * 2 powi e"
    by (simp add: r valof_def p m algebra_simps)
  then have "\<bar>valof (round53 (m, e)) - real_of_int m * 2 powi e\<bar>
        = \<bar>real q * 2 ^ k - real n\<bar> * 2 powi e"
    by (simp add: abs_mult s1)
  also have "\<dots> \<le> (2 ^ k / 2) * 2 powi e"
    using err by (intro mult_right_mono) simp_all
  also have "\<dots> \<le> (2 powi (- 53) * real n) * 2 powi e"
  proof (intro mult_right_mono)
    have "(2::real) powi (- 53) * (2 ^ k * 2 ^ 52) \<le> 2 powi (- 53) * real n"
      using lo by (intro mult_left_mono) simp_all
    then show "(2::real) ^ k / 2 \<le> 2 powi (- 53) * real n"
      by (simp add: power_int_minus field_simps)
  qed simp
  also have "\<dots> = 2 powi (- 53) * \<bar>real_of_int m * 2 powi e\<bar>"
    by (simp add: m abs_mult s1)
  finally show ?thesis .
qed

lemma fmul_err:
  "\<bar>valof (fmul a b) - valof a * valof b\<bar> \<le> 2 powi (- 53) * \<bar>valof a * valof b\<bar>"
proof -
  have "real_of_int (fst a * fst b) * 2 powi (snd a + snd b) = valof a * valof b"
    by (simp add: valof_def power_int_add)
  then show ?thesis
    using round53_err [of "fst a * fst b" "snd a + snd b"] by (simp add: fmul_def)
qed

lemma fadd_exact:
  "real_of_int (fst a * 2 ^ nat (snd a - min (snd a) (snd b))
                + fst b * 2 ^ nat (snd b - min (snd a) (snd b))) * 2 powi (min (snd a) (snd b))
   = valof a + valof b"
proof -
  have sh: "2 powi y * (2::real) ^ nat (x - y) = 2 powi x" if "y \<le> x" for x y :: int
  proof -
    have "(2::real) ^ nat (x - y) = 2 powi (x - y)"
      using that by (simp add: power_int_def)
    then show ?thesis by (simp add: power_int_diff)
  qed
  have "min (snd a) (snd b) \<le> snd a" "min (snd a) (snd b) \<le> snd b" by simp_all
  note s = sh [OF this(1)] sh [OF this(2)]
  show ?thesis
    by (simp add: valof_def algebra_simps s mult.assoc)
qed

lemma fadd_err:
  "\<bar>valof (fadd a b) - (valof a + valof b)\<bar> \<le> 2 powi (- 53) * \<bar>valof a + valof b\<bar>"
  using round53_err [of "fst a * 2 ^ nat (snd a - min (snd a) (snd b))
                + fst b * 2 ^ nat (snd b - min (snd a) (snd b))" "min (snd a) (snd b)"]
  by (simp only: fadd_def Let_def fadd_exact)

lemma fmin_valof: "valof (fmin a b) = min (valof a) (valof b)"
  by (simp add: fmin_def min_def)

lemma literal_values:
  "valof d_half = 1 / 2" "valof d_one = 1" "valof d_zero = 0"
  "\<bar>valof d_0_3 - 3 / 10\<bar> < 2 powi (- 55)" "\<bar>valof d_0_2 - 1 / 5\<bar> < 2 powi (- 56)"
  "\<bar>valof d_0_9 - 9 / 10\<bar> < 2 powi (- 54)" "\<bar>valof d_0_4 - 2 / 5\<bar> < 2 powi (- 55)"
  "\<bar>valof d_0_83 - 83 / 100\<bar> < 2 powi (- 54)" "valof d_0_75 = 3 / 4"
  by (simp_all add: valof_def d_half_def d_one_def d_zero_def d_0_3_def d_0_2_def d_0_9_def
      d_0_4_def d_0_83_def d_0_75_def)

lemma rel_err_bound:
  fixes r t u B :: real
  assumes "\<bar>r - t\<bar> \<le> u * \<bar>t\<bar>" "\<bar>t\<bar> \<le> B" "0 \<le> u"
  shows "\<bar>r - t\<bar> \<le> u * B"
  using assms by (meson mult_left_mono order_trans)

lemma calculateConfidence64_accuracy:
  assumes xs: "\<bar>valof s\<bar> \<le> 1" and zs: "\<bar>valof c\<bar> \<le> 1"
  shows "\<bar>valof (calculateConfidence64 s p c) - calculateConfidence (valof s) p (valof c)\<bar>
         \<le> 2 powi (- 51)"
proof -
  define u :: real where "u = 2 powi (- 53)"
  have u: "u = 1 / 9007199254740992" by (simp add: u_def)
  have u0: "0 \<le> u" by (simp add: u)
  define x z w where "x = valof s" and "z = valof c" and "w = (if p then 1 else 0 :: real)"
  define pd where "pd = (if p then d_one else d_zero)"
  have pd: "valof pd = w" by (simp add: pd_def w_def literal_values)
  have w: "0 \<le> w" "w \<le> 1" by (simp_all add: w_def)
  define h3 h2 where "h3 = valof d_0_3" and "h2 = valof d_0_2"
  have h3: "\<bar>h3 - 3 / 10\<bar> \<le> u / 4" and h2: "\<bar>h2 - 1 / 5\<bar> \<le> u / 8"
    using literal_values(4,5) by (simp_all add: h3_def h2_def u)
  define A P C T1 T2 where "A = valof (fmul d_half s)" and "P = valof (fmul d_0_3 pd)"
    and "C = valof (fmul d_0_2 c)"
    and "T1 = valof (fadd (fmul d_half s) (fmul d_0_3 pd))"
    and "T2 = valof (fadd (fadd (fmul d_half s) (fmul d_0_3 pd)) (fmul d_0_2 c))"
  have "\<bar>A - x / 2\<bar> \<le> u * \<bar>x / 2\<bar>"
    using fmul_err [of d_half s] by (simp add: A_def x_def u_def literal_values)
  moreover have "\<bar>x / 2\<bar> \<le> 1 / 2" using xs by (simp add: x_def)
  ultimately have bA: "\<bar>A - x / 2\<bar> \<le> u * (1 / 2)" using u0 by (rule rel_err_bound)
  have h3w: "\<bar>h3 * w\<bar> \<le> 31 / 100"
  proof -
    have "\<bar>h3 * w\<bar> \<le> \<bar>h3\<bar>" using w by (simp add: abs_mult mult_left_le)
    also have "\<dots> \<le> 31 / 100" using h3 unfolding u by linarith
    finally show ?thesis .
  qed
  have "\<bar>P - h3 * w\<bar> \<le> u * \<bar>h3 * w\<bar>"
    using fmul_err [of d_0_3 pd] by (simp add: P_def pd h3_def u_def)
  from this h3w u0 have bP0: "\<bar>P - h3 * w\<bar> \<le> u * (31 / 100)" by (rule rel_err_bound)
  have "h3 * w - 3 / 10 * w = (h3 - 3 / 10) * w" by (simp add: algebra_simps)
  then have "\<bar>h3 * w - 3 / 10 * w\<bar> = \<bar>h3 - 3 / 10\<bar> * w"
    using w by (simp add: abs_mult)
  also have "\<dots> \<le> \<bar>h3 - 3 / 10\<bar>" using w by (simp add: mult_left_le)
  finally have bP1: "\<bar>h3 * w - 3 / 10 * w\<bar> \<le> u / 4" using h3 by simp
  have h2z: "\<bar>h2 * z\<bar> \<le> 21 / 100"
  proof -
    have "\<bar>h2 * z\<bar> = \<bar>h2\<bar> * \<bar>z\<bar>" by (simp add: abs_mult)
    also have "\<dots> \<le> \<bar>h2\<bar>" using zs by (simp add: z_def mult_left_le)
    also have "\<dots> \<le> 21 / 100" using h2 unfolding u by linarith
    finally show ?thesis .
  qed
  have "\<bar>C - h2 * z\<bar> \<le> u * \<bar>h2 * z\<bar>"
    using fmul_err [of d_0_2 c] by (simp add: C_def z_def h2_def u_def)
  from this h2z u0 have bC0: "\<bar>C - h2 * z\<bar> \<le> u * (21 / 100)" by (rule rel_err_bound)
  have "h2 * z - 1 / 5 * z = (h2 - 1 / 5) * z" by (simp add: algebra_simps)
  then have "\<bar>h2 * z - 1 / 5 * z\<bar> = \<bar>h2 - 1 / 5\<bar> * \<bar>z\<bar>"
    by (simp only: abs_mult)
  also have "\<dots> \<le> \<bar>h2 - 1 / 5\<bar>" using zs by (simp add: z_def mult_left_le)
  finally have bC1: "\<bar>h2 * z - 1 / 5 * z\<bar> \<le> u / 8" using h2 by simp
  have xb: "\<bar>x\<bar> \<le> 1" and zb: "\<bar>z\<bar> \<le> 1" using xs zs by (simp_all add: x_def z_def)
  have AP: "\<bar>A + P\<bar> \<le> 82 / 100"
    using bA bP0 h3w xb unfolding u by linarith
  have "\<bar>T1 - (A + P)\<bar> \<le> u * \<bar>A + P\<bar>"
    using fadd_err [of "fmul d_half s" "fmul d_0_3 pd"] by (simp add: T1_def A_def P_def u_def)
  from this AP u0 have bT1: "\<bar>T1 - (A + P)\<bar> \<le> u * (82 / 100)" by (rule rel_err_bound)
  have TC: "\<bar>T1 + C\<bar> \<le> 104 / 100"
    using bT1 AP bC0 h2z unfolding u by linarith
  have "\<bar>T2 - (T1 + C)\<bar> \<le> u * \<bar>T1 + C\<bar>"
    using fadd_err [of "fadd (fmul d_half s) (fmul d_0_3 pd)" "fmul d_0_2 c"]
    by (simp add: T2_def T1_def C_def u_def)
  from this TC u0 have bT2: "\<bar>T2 - (T1 + C)\<bar> \<le> u * (104 / 100)" by (rule rel_err_bound)
  have total: "\<bar>T2 - (x / 2 + 3 / 10 * w + 1 / 5 * z)\<bar> \<le> 4 * u"
    using bA bP0 bP1 bC0 bC1 bT1 bT2 unfolding u by linarith
  have c64: "valof (calculateConfidence64 s p c) = min T2 1"
    by (simp add: calculateConfidence64_def Let_def fmin_valof literal_values T2_def pd_def)
  have cre: "calculateConfidence (valof s) p (valof c) = min (x / 2 + 3 / 10 * w + 1 / 5 * z) 1"
    by (simp add: calculateConfidence_def x_def z_def w_def)
  have "\<bar>min T2 1 - min (x / 2 + 3 / 10 * w + 1 / 5 * z) 1\<bar>
        \<le> \<bar>T2 - (x / 2 + 3 / 10 * w + 1 / 5 * z)\<bar>"
    by linarith
  with total have "\<bar>min T2 1 - min (x / 2 + 3 / 10 * w + 1 / 5 * z) 1\<bar> \<le> 4 * u" by simp
  moreover have "4 * u = 2 powi (- 51)" by (simp add: u)
  ultimately show ?thesis by (simp only: c64 cre)
qed

lemmas f64_defs = calculateConfidence64_def fadd_def fmul_def fmin_def round53_def roundEven_def
  Let_def valof_def bits.simps d_half_def d_0_3_def d_0_2_def d_one_def d_zero_def d_0_9_def
  d_0_4_def d_0_83_def d_0_75_def

lemma confidence64_at_claim_input:
  "valof (calculateConfidence64 d_0_9 True d_0_4) = 7475975381435024 * 2 powi (- 53)"
  by (simp add: f64_defs)

text \<open>
  Claim C2, as stated, gives the value 0.83 at \<^verbatim>\<open>(0.9, true, 0.4)\<close>. That is the value of the
  formula in exact arithmetic. The source computes with doubles: \<^verbatim>\<open>0.5 * 0.9\<close> is 0.45,
  adding \<^verbatim>\<open>0.3 * 1\<close> gives 0.75 exactly, \<^verbatim>\<open>0.2 * 0.4\<close> rounds to 0.08000000000000002, and the
  last sum rounds to 0.8300000000000001, the double next above the double that \<^verbatim>\<open>0.83\<close>
  denotes.
\<close>

theorem calculateConfidence_value_counterexample:
  "valof (calculateConfidence64 d_0_9 True d_0_4) = 7475975381435024 * 2 powi (- 53)
   \<and> valof d_0_83 = 7475975381435023 * 2 powi (- 53)
   \<and> valof (calculateConfidence64 d_0_9 True d_0_4) \<noteq> valof d_0_83
   \<and> valof (calculateConfidence64 d_0_9 True d_0_4) \<noteq> 83 / 100"
  by (simp add: confidence64_at_claim_input) (simp add: valof_def d_0_83_def)

text \<open>
  Claim C2, amended: \<^verbatim>\<open>calculateConfidence(s, p, c)\<close> is \<^verbatim>\<open>Math.min\<close> of 1 and the weighted
  sum \<open>0.5 s + 0.3 [p] + 0.2 c\<close> evaluated in double arithmetic, each product and each sum
  rounded to nearest; it is clamped above at 1 and not clamped below (at \<open>(-1, false, -1)\<close>
  it is negative). For inputs of magnitude at most 1 it differs from the exact value
  \<open>min (0.5 s + 0.3 [p] + 0.2 c) 1\<close> by at most \<open>2\<^sup>-\<^sup>5\<^sup>1\<close>. At \<^verbatim>\<open>(0.9, true, 0.4)\<close> the exact
  formula gives 0.83 and the code returns 0.8300000000000001, which is above 0.83 by
  less than \<open>2\<^sup>-\<^sup>5\<^sup>2\<close> and is at least 0.75.
\<close>

theorem calculateConfidence_formula:
  "calculateConfidence64 s p c =
     fmin (fadd (fadd (fmul d_half s) (fmul d_0_3 (if p then d_one else d_zero))) (fmul d_0_2 c))
          d_one
   \<and> valof (calculateConfidence64 s p c) \<le> 1
   \<and> (\<bar>valof s\<bar> \<le> 1 \<and> \<bar>valof c\<bar> \<le> 1 \<longrightarrow>
        \<bar>valof (calculateConfidence64 s p c)
          - min (0.5 * valof s + 0.3 * (if p then 1 else 0) + 0.2 * valof c) 1\<bar> \<le> 2 powi (- 51))
   \<and> calculateConfidence (valof s) p (valof c)
       = min (0.5 * valof s + 0.3 * (if p then 1 else 0) + 0.2 * valof c) 1
   \<and> calculateConfidence 0.9 True 0.4 = 0.83
   \<and> valof (calculateConfidence64 d_0_9 True d_0_4) = 7475975381435024 * 2 powi (- 53)
   \<and> valof (calculateConfidence64 d_0_9 True d_0_4) - 83 / 100 < 2 powi (- 52)
   \<and> 83 / 100 < valof (calculateConfidence64 d_0_9 True d_0_4)
   \<and> valof d_0_75 \<le> valof (calculateConfidence64 d_0_9 True d_0_4)
   \<and> valof (calculateConfidence64 (- 1, 0) False (- 1, 0)) < 0"
proof (intro conjI impI)
  show "calculateConfidence64 s p c =
     fmin (fadd (fadd (fmul d_half s) (fmul d_0_3 (if p then d_one else d_zero))) (fmul d_0_2 c))
          d_one"
    by (simp add: calculateConfidence64_def)
  show "valof (calculateConfidence64 s p c) \<le> 1"
    by (simp add: calculateConfidence64_def Let_def fmin_valof literal_values)
  show re: "calculateConfidence (valof s) p (valof c)
       = min (0.5 * valof s + 0.3 * (if p then 1 else 0) + 0.2 * valof c) 1"
    by (simp add: calculateConfidence_def)
  show "\<bar>valof (calculateConfidence64 s p c)
          - min (0.5 * valof s + 0.3 * (if p then 1 else 0) + 0.2 * valof c) 1\<bar> \<le> 2 powi (- 51)"
    if "\<bar>valof s\<bar> \<le> 1 \<and> \<bar>valof c\<bar> \<le> 1"
    using calculateConfidence64_accuracy [of s c p] that unfolding re by simp
  show "calculateConfidence 0.9 True 0.4 = 0.83"
    by (simp add: calculateConfidence_def)
  show "valof (calculateConfidence64 d_0_9 True d_0_4) = 7475975381435024 * 2 powi (- 53)"
    by (rule confidence64_at_claim_input)
  show "valof (calculateConfidence64 d_0_9 True d_0_4) - 83 / 100 < 2 powi (- 52)"
    by (simp add: confidence64_at_claim_input)
  show "83 / 100 < valof (calculateConfidence64 d_0_9 True d_0_4)"
    by (simp add: confidence64_at_claim_input)
  show "valof d_0_75 \<le> valof (calculateConfidence64 d_0_9 True d_0_4)"
    by (simp add: confidence64_at_claim_input literal_values)
  show "valof (calculateConfidence64 (- 1, 0) False (- 1, 0)) < 0"
    by (simp add: f64_defs)
qed

theorem calculateConfidence_formula_witness:
  "\<bar>valof d_0_9\<bar> \<le> 1 \<and> \<bar>valof d_0_4\<bar> \<le> 1
   \<and> \<bar>valof (calculateConfidence64 d_0_9 True d_0_4)
        - min (0.5 * valof d_0_9 + 0.3 * (if True then 1 else 0) + 0.2 * valof d_0_4) 1\<bar>
       \<le> 2 powi (- 51)"
proof -
  have h: "\<bar>valof d_0_9\<bar> \<le> 1 \<and> \<bar>valof d_0_4\<bar> \<le> 1"
    by (simp add: valof_def d_0_9_def d_0_4_def)
  with calculateConfidence_formula [of d_0_9 True d_0_4] show ?thesis by blast
qed

text \<open>
  Claim C7: \<^verbatim>\<open>calculateConfidence\<close> is non-decreasing in the semantic similarity, in the
  project-match flag (ordered \<open>False\<close> below \<open>True\<close>) and in the command similarity, each
  with the other two inputs fixed, and its result is at most 1.
\<close>

theorem calculateConfidence_mono:
  "(s \<le> s' \<longrightarrow> calculateConfidence s p c \<le> calculateConfidence s' p c)
   \<and> ((p \<longrightarrow> p') \<longrightarrow> calculateConfidence s p c \<le> calculateConfidence s p' c)
   \<and> (c \<le> c' \<longrightarrow> calculateConfidence s p c \<le> calculateConfidence s p c')
   \<and> calculateConfidence s p c \<le> 1"
  by (auto simp: calculateConfidence_def Let_def)

theorem calculateConfidence_mono_witness:
  "(0.2::real) \<le> 0.9 \<and> calculateConfidence 0.2 True 0.4 \<le> calculateConfidence 0.9 True 0.4
   \<and> calculateConfidence 0.9 False 0.4 \<le> calculateConfidence 0.9 True 0.4
   \<and> (0.1::real) \<le> 0.4 \<and> calculateConfidence 0.9 False 0.1 \<le> calculateConfidence 0.9 False 0.4
   \<and> calculateConfidence 3 True 3 \<le> 1"
  using calculateConfidence_mono [of "0.2" "0.9" True "0.4" True "0.4"]
        calculateConfidence_mono [of "0.9" "0.9" False "0.4" True "0.4"]
        calculateConfidence_mono [of "0.9" "0.9" False "0.1" False "0.4"]
        calculateConfidence_mono [of 3 3 True 3 True 3]
  by simp

subsection \<open>Cosine similarity\<close>

lemma cosineLoop_sums:
  "length a = length b \<Longrightarrow>
   cosineLoop a b (d, na, nb) = (d + dot a b, na + dot a a, nb + dot b b)"
proof (induction a arbitrary: b d na nb)
  case Nil
  then show ?case by (simp add: dot_def)
next
  case (Cons x xs)
  then obtain y ys where b: "b = y # ys" and len: "length xs = length ys"
    by (cases b) auto
  show ?case
    using Cons.IH [OF len] by (simp add: b dot_def)
qed

text \<open>
  Claim C9: \<^verbatim>\<open>cosineSimilarity(a, b)\<close> is 0 when the lengths differ and when either vector
  has zero magnitude; otherwise it is the dot product divided by the product of the
  magnitudes. The function is total: no branch raises.
\<close>

theorem cosineSimilarity_cases:
  "(length a \<noteq> length b \<longrightarrow> cosineSimilarity a b = 0)
   \<and> (magnitude a = 0 \<or> magnitude b = 0 \<longrightarrow> cosineSimilarity a b = 0)
   \<and> (length a = length b \<and> magnitude a \<noteq> 0 \<and> magnitude b \<noteq> 0 \<longrightarrow>
        cosineSimilarity a b = dot a b / (magnitude a * magnitude b))"
  by (auto simp: cosineSimilarity_def cosineLoop_sums magnitude_def)

theorem cosineSimilarity_cases_witness:
  "length [1, 0 :: real] \<noteq> length [1 :: real] \<and> cosineSimilarity [1, 0] [1] = 0
   \<and> magnitude [0, 0] = 0 \<and> cosineSimilarity [0, 0] [3, 4] = 0
   \<and> length [3, 4 :: real] = length [3, 4 :: real] \<and> magnitude [3, 4] \<noteq> 0
   \<and> cosineSimilarity [3, 4] [3, 4] = dot [3, 4] [3, 4] / (magnitude [3, 4] * magnitude [3, 4])"
  using cosineSimilarity_cases [of "[1, 0]" "[1]"]
        cosineSimilarity_cases [of "[0, 0]" "[3, 4]"]
        cosineSimilarity_cases [of "[3, 4]" "[3, 4]"]
  by (simp add: magnitude_def dot_def)

subsection \<open>The episode table\<close>

lemma findSimilarEpisode_None_iff:
  "findSimilarEpisode db h g = None \<longleftrightarrow>
   \<not> (\<exists>row \<in> set (episodes db). ep_project_hash row = h \<and> problem_summary row = g)"
proof -
  have "findSimilarEpisode db h g = None \<longleftrightarrow>
        filter (\<lambda>row. ep_project_hash row = h \<and> problem_summary row = g) (episodes db) = []"
    by (simp add: findSimilarEpisode_def split: list.splits)
  then show ?thesis by (simp add: filter_empty_conv)
qed

lemma findSimilarEpisode_hit:
  assumes "row \<in> set (episodes db)" "ep_project_hash row = h" "problem_summary row = g"
  obtains hit where "hit \<in> set (episodes db)" "ep_project_hash hit = h" "problem_summary hit = g"
    "findSimilarEpisode db h g = Some (rowToEpisode hit)"
proof -
  let ?m = "filter (\<lambda>r. ep_project_hash r = h \<and> problem_summary r = g) (episodes db)"
  from assms have "row \<in> set ?m" by simp
  then obtain hit rest where m: "?m = hit # rest" by (cases ?m) auto
  then have "hit \<in> set ?m" by simp
  then have "hit \<in> set (episodes db)" "ep_project_hash hit = h" "problem_summary hit = g"
    by simp_all
  moreover have "findSimilarEpisode db h g = Some (rowToEpisode hit)"
    by (simp add: findSimilarEpisode_def m)
  ultimately show ?thesis using that by blast
qed

lemma key_applyUpdates:
  "ep_project_hash (applyUpdates u r) = ep_project_hash r"
  "problem_summary (applyUpdates u r) = problem_summary r"
  "ep_id (applyUpdates u r) = ep_id r"
  by (simp_all add: applyUpdates_def Let_def split: option.splits)

lemma updateEpisode_keys:
  "map (\<lambda>row. (ep_project_hash row, problem_summary row)) (episodes (updateEpisode db i u))
   = map (\<lambda>row. (ep_project_hash row, problem_summary row)) (episodes db)"
  by (simp add: updateEpisode_def key_applyUpdates comp_def)

lemma updateEpisode_ids:
  "map ep_id (episodes (updateEpisode db i u)) = map ep_id (episodes db)"
  by (simp add: updateEpisode_def key_applyUpdates comp_def)

lemma insertLinked_episodes:
  "episodes (insertLinked i evs db) = episodes db"
  by (induction evs arbitrary: db) (simp_all add: insertRawEvent_def Let_def)

lemma insertLinked_episodes_seq:
  "episodes_seq (insertLinked i evs db) = episodes_seq db"
  by (induction evs arbitrary: db) (simp_all add: insertRawEvent_def Let_def)

lemma wfDb_id:
  assumes "wfDb db" "hit \<in> set (episodes db)"
  obtains i where "ep_id hit = Some i" "i \<le> episodes_seq db"
  using assms by (auto simp: wfDb_def list_all_iff split: option.splits)

lemma wfDb_same_id:
  assumes "wfDb db" "hit \<in> set (episodes db)" "r \<in> set (episodes db)" "ep_id r = ep_id hit"
  shows "r = hit"
  using assms by (auto simp: wfDb_def distinct_map dest: inj_onD)

lemma onePerSignature_same_key:
  assumes "onePerSignature db" "hit \<in> set (episodes db)" "r \<in> set (episodes db)"
    "ep_project_hash r = ep_project_hash hit" "problem_summary r = problem_summary hit"
  shows "r = hit"
proof -
  from assms(1) have "inj_on (\<lambda>row. (ep_project_hash row, problem_summary row)) (set (episodes db))"
    by (simp add: onePerSignature_def distinct_map)
  then show ?thesis using assms(2-5) by (auto dest!: inj_onD)
qed

lemma extractEpisode_existing:
  assumes wf: "wfDb db" and hit: "hit \<in> set (episodes db)"
    and f: "findSimilarEpisode db (hashProjectPath md5 (cwd ev)) (extractErrorSignature (stderr ev) (command ev)) = Some (rowToEpisode hit)"
    and ne: "following \<noteq> []"
  shows "extractEpisode md5 now env gen ev following db =
         (None, db\<lparr>episodes := map (\<lambda>r. if r = hit then bumped now hit else r) (episodes db)\<rparr>)"
proof -
  from wf hit obtain i where i: "ep_id hit = Some i" by (rule wfDb_id)
  have upd: "applyUpdates \<lparr>upd_last_seen = Some now, upd_occurrence_count = Some (occurrence_count hit + 1), upd_embedding = None\<rparr> hit
      = bumped now hit"
    by (simp add: applyUpdates_def bumped_def)
  have "map (\<lambda>row. if ep_id row = Some i then applyUpdates \<lparr>upd_last_seen = Some now, upd_occurrence_count = Some (occurrence_count hit + 1), upd_embedding = None\<rparr> row else row) (episodes db)
      = map (\<lambda>r. if r = hit then bumped now hit else r) (episodes db)"
  proof (rule map_cong [OF refl])
    fix r assume "r \<in> set (episodes db)"
    then have "ep_id r = Some i \<longleftrightarrow> r = hit"
      using wfDb_same_id [OF wf hit] i by auto
    then show "(if ep_id r = Some i then applyUpdates \<lparr>upd_last_seen = Some now, upd_occurrence_count = Some (occurrence_count hit + 1), upd_embedding = None\<rparr> r else r)
        = (if r = hit then bumped now hit else r)"
      using upd by auto
  qed
  then show ?thesis
    using ne f i by (simp add: extractEpisode_def Let_def updateEpisode_def rowToEpisode_def)
qed

lemma join_Nil_iff:
  "sep \<noteq> [] \<Longrightarrow> join sep xs = [] \<longleftrightarrow> xs = [] \<or> xs = [[]]"
  by (induction sep xs rule: join.induct) auto

lemma buildFixSequence_eq:
  "buildFixSequence following =
     (let cmds = take 5 (map raw_command (filter (\<lambda>e. raw_exit_code e = 0) following))
      in if cmds = [] \<or> cmds = [[]] then ''Unknown fix'' else join '' && '' cmds)"
  by (simp add: buildFixSequence_def Let_def join_Nil_iff)

lemma insertRawEvent_episodes:
  "episodes (snd (insertRawEvent db e)) = episodes db"
  "episodes_seq (snd (insertRawEvent db e)) = episodes_seq db"
  by (simp_all add: insertRawEvent_def Let_def)

lemma extractEpisode_new:
  assumes ne: "following \<noteq> []"
    and f: "findSimilarEpisode db (hashProjectPath md5 (cwd ev))
              (extractErrorSignature (stderr ev) (command ev)) = None"
  shows "\<exists>ep row.
           fst (extractEpisode md5 now env gen ev following db) = Some ep
         \<and> episodes (snd (extractEpisode md5 now env gen ev following db)) = episodes db @ [row]
         \<and> episodes_seq (snd (extractEpisode md5 now env gen ev following db)) = episodes_seq db + 1
         \<and> ep_id ep = Some (episodes_seq db + 1) \<and> ep_id row = Some (episodes_seq db + 1)
         \<and> ep_project_hash ep = hashProjectPath md5 (cwd ev)
         \<and> ep_project_hash row = hashProjectPath md5 (cwd ev)
         \<and> problem_summary ep = extractErrorSignature (stderr ev) (command ev)
         \<and> problem_summary row = extractErrorSignature (stderr ev) (command ev)
         \<and> fix_sequence ep = buildFixSequence following
         \<and> fix_sequence row = buildFixSequence following
         \<and> occurrence_count ep = 1 \<and> occurrence_count row = 1
         \<and> last_seen ep = now \<and> first_seen ep = timestamp ev"
  using ne f
  by (simp add: extractEpisode_def Let_def insertEpisode_def insertLinked_episodes
      insertLinked_episodes_seq insertRawEvent_episodes split: option.splits prod.splits)

lemma sig_boom: "extractErrorSignature ''boom'' c = ''boom''"
  by (simp add: extractErrorSignature_def matchErrorColonAt_def matchErrCodeAt_def matchWordErrorAt_def
      keywordAt_def toLowerCase_def toLowerChar_def isUpperAscii_def isWordChar_def isLowerAscii_def isDigit_def
      isSpace_def firstNonBlankLine_def trim_def Let_def)

lemma extractEpisode_no_insert:
  assumes row: "row \<in> set (episodes db)"
    and h: "ep_project_hash row = hashProjectPath md5 (cwd ev)"
    and g: "problem_summary row = extractErrorSignature (stderr ev) (command ev)"
  shows "fst (extractEpisode md5 now env gen ev following db) = None
       \<and> length (episodes (snd (extractEpisode md5 now env gen ev following db))) = length (episodes db)
       \<and> raw_events (snd (extractEpisode md5 now env gen ev following db)) = raw_events db"
proof -
  from findSimilarEpisode_hit [OF row h g] obtain hit where
    f: "findSimilarEpisode db (hashProjectPath md5 (cwd ev))
          (extractErrorSignature (stderr ev) (command ev)) = Some (rowToEpisode hit)"
    by blast
  show ?thesis
    by (simp add: extractEpisode_def Let_def f updateEpisode_def split: option.splits)
qed

lemma extractEpisode_onePerSignature:
  assumes inv: "onePerSignature db"
  shows "onePerSignature (snd (extractEpisode md5 now env gen ev following db))"
proof (cases "following = []")
  case True
  then show ?thesis using inv by (simp add: extractEpisode_def)
next
  case False
  let ?h = "hashProjectPath md5 (cwd ev)"
  let ?g = "extractErrorSignature (stderr ev) (command ev)"
  show ?thesis
  proof (cases "findSimilarEpisode db ?h ?g")
    case None
    from extractEpisode_new [OF False None, of now env gen] obtain row where
      eps: "episodes (snd (extractEpisode md5 now env gen ev following db)) = episodes db @ [row]"
      and k: "ep_project_hash row = ?h" "problem_summary row = ?g"
      by blast
    from None have "(?h, ?g) \<notin> set (map (\<lambda>r. (ep_project_hash r, problem_summary r)) (episodes db))"
      by (auto simp: findSimilarEpisode_None_iff)
    then show ?thesis
      using inv by (simp add: onePerSignature_def eps k)
  next
    case (Some existing)
    have "map (\<lambda>r. (ep_project_hash r, problem_summary r))
            (episodes (snd (extractEpisode md5 now env gen ev following db)))
          = map (\<lambda>r. (ep_project_hash r, problem_summary r)) (episodes db)"
      using False Some
      by (simp add: extractEpisode_def Let_def updateEpisode_keys split: option.splits)
    then show ?thesis using inv by (simp add: onePerSignature_def)
  qed
qed

lemma wfDb_alt:
  "wfDb db \<longleftrightarrow>
     distinct (map ep_id (episodes db)) \<and>
     (\<forall>i \<in> set (map ep_id (episodes db)). case i of None \<Rightarrow> False | Some k \<Rightarrow> k \<le> episodes_seq db)"
  by (simp add: wfDb_def list_all_iff)

lemma extractEpisode_wfDb:
  assumes wf: "wfDb db"
  shows "wfDb (snd (extractEpisode md5 now env gen ev following db))"
proof (cases "following = []")
  case True
  then show ?thesis using wf by (simp add: extractEpisode_def)
next
  case False
  let ?h = "hashProjectPath md5 (cwd ev)"
  let ?g = "extractErrorSignature (stderr ev) (command ev)"
  show ?thesis
  proof (cases "findSimilarEpisode db ?h ?g")
    case None
    from extractEpisode_new [OF False None, of now env gen] obtain row where
      eps: "episodes (snd (extractEpisode md5 now env gen ev following db)) = episodes db @ [row]"
      and sq: "episodes_seq (snd (extractEpisode md5 now env gen ev following db)) = episodes_seq db + 1"
      and i: "ep_id row = Some (episodes_seq db + 1)"
      by blast
    have "Some (episodes_seq db + 1) \<notin> set (map ep_id (episodes db))"
      using wf by (auto simp: wfDb_def list_all_iff split: option.splits)
    then show ?thesis
      using wf by (auto simp: wfDb_def eps sq i list_all_iff split: option.splits)
  next
    case (Some existing)
    have "map ep_id (episodes (snd (extractEpisode md5 now env gen ev following db)))
          = map ep_id (episodes db)"
      and "episodes_seq (snd (extractEpisode md5 now env gen ev following db)) = episodes_seq db"
      using False Some
      by (simp_all add: extractEpisode_def Let_def updateEpisode_def key_applyUpdates comp_def
          split: option.splits)
    then show ?thesis using wf
      by (simp add: wfDb_alt cong: option.case_cong)
  qed
qed

lemma processEvent_invariants:
  "(onePerSignature db \<longrightarrow> onePerSignature (snd (processEvent md5 nowP now env gen event db)))
   \<and> (wfDb db \<longrightarrow> wfDb (snd (processEvent md5 nowP now env gen event db)))"
proof -
  let ?db1 = "snd (insertRawEvent db (rawOfTerminal None event))"
  have o: "onePerSignature ?db1 = onePerSignature db"
    by (simp add: onePerSignature_def insertRawEvent_episodes)
  have w: "wfDb ?db1 = wfDb db"
    by (simp add: wfDb_def insertRawEvent_episodes cong: option.case_cong)
  show ?thesis
  proof (cases "isError (stderr event) (exit_code event)")
    case False
    then show ?thesis by (simp add: processEvent_def Let_def o w)
  next
    case True
    then show ?thesis
      using extractEpisode_onePerSignature [of ?db1] extractEpisode_wfDb [of ?db1]
      by (simp add: processEvent_def Let_def o w)
  qed
qed

lemma clearProject_invariants:
  "(onePerSignature db \<longrightarrow> onePerSignature (clearProject db h))
   \<and> (wfDb db \<longrightarrow> wfDb (clearProject db h))"
  by (auto simp: onePerSignature_def wfDb_def clearProject_def distinct_map_filter list_all_iff
      cong: option.case_cong)

lemma reachable_invariants:
  "reachable db \<Longrightarrow> onePerSignature db \<and> wfDb db"
proof (induction rule: reachable.induct)
  case start
  show ?case by (simp add: onePerSignature_def wfDb_def emptyDb_def)
next
  case (event db md5 nowP now env genEmbedding event)
  then show ?case using processEvent_invariants [of db md5 nowP now env genEmbedding event] by blast
next
  case (clear db projectHash)
  then show ?case using clearProject_invariants [of db projectHash] by blast
qed

text \<open>
  Claim C3: when the store is well formed, holds at most one episode per signature and
  already holds an episode \<open>row\<close> for the project identity and problem signature of an
  error event with a non-empty list of following events, \<^verbatim>\<open>extractEpisode\<close> returns
  \<^verbatim>\<open>null\<close> and changes nothing but that row: its \<^verbatim>\<open>last_seen\<close> becomes the current time
  and its \<^verbatim>\<open>occurrence_count\<close> grows by exactly 1. Whenever a matching episode exists no
  episode is inserted. Every call of \<^verbatim>\<open>extractEpisode\<close> preserves "at most one episode
  per pair of project identity and problem signature" and the well-formedness of the
  store, and the empty store has both properties; so every store the program can reach
  holds at most one episode per pair.
\<close>

theorem extractEpisode_recurrence:
  "(wfDb db \<and> onePerSignature db \<and> row \<in> set (episodes db)
      \<and> ep_project_hash row = hashProjectPath md5 (cwd ev)
      \<and> problem_summary row = extractErrorSignature (stderr ev) (command ev)
      \<and> following \<noteq> [] \<longrightarrow>
      extractEpisode md5 now env gen ev following db =
        (None, db\<lparr>episodes := map (\<lambda>r. if r = row then bumped now row else r) (episodes db)\<rparr>))
   \<and> (row \<in> set (episodes db)
      \<and> ep_project_hash row = hashProjectPath md5 (cwd ev)
      \<and> problem_summary row = extractErrorSignature (stderr ev) (command ev) \<longrightarrow>
      fst (extractEpisode md5 now env gen ev following db) = None
      \<and> length (episodes (snd (extractEpisode md5 now env gen ev following db))) = length (episodes db))
   \<and> (onePerSignature db \<longrightarrow> onePerSignature (snd (extractEpisode md5 now env gen ev following db)))
   \<and> (wfDb db \<longrightarrow> wfDb (snd (extractEpisode md5 now env gen ev following db)))
   \<and> (reachable db \<longrightarrow> onePerSignature db \<and> wfDb db)
   \<and> onePerSignature emptyDb \<and> wfDb emptyDb"
proof -
  have A: "extractEpisode md5 now env gen ev following db =
        (None, db\<lparr>episodes := map (\<lambda>r. if r = row then bumped now row else r) (episodes db)\<rparr>)"
    if wf: "wfDb db" and inv: "onePerSignature db" and row: "row \<in> set (episodes db)"
      and h: "ep_project_hash row = hashProjectPath md5 (cwd ev)"
      and g: "problem_summary row = extractErrorSignature (stderr ev) (command ev)"
      and ne: "following \<noteq> []"
  proof -
    from findSimilarEpisode_hit [OF row h g] obtain hit where
      hit: "hit \<in> set (episodes db)"
      and k: "ep_project_hash hit = hashProjectPath md5 (cwd ev)"
        "problem_summary hit = extractErrorSignature (stderr ev) (command ev)"
      and f: "findSimilarEpisode db (hashProjectPath md5 (cwd ev))
          (extractErrorSignature (stderr ev) (command ev)) = Some (rowToEpisode hit)"
      by blast
    have "hit = row"
      using onePerSignature_same_key [OF inv row hit] k h g by simp
    with extractEpisode_existing [OF wf hit f ne] show ?thesis by simp
  qed
  have E: "onePerSignature emptyDb" "wfDb emptyDb"
    by (simp_all add: onePerSignature_def wfDb_def emptyDb_def)
  show ?thesis
  proof (intro conjI impI)
    assume "wfDb db \<and> onePerSignature db \<and> row \<in> set (episodes db)
      \<and> ep_project_hash row = hashProjectPath md5 (cwd ev)
      \<and> problem_summary row = extractErrorSignature (stderr ev) (command ev)
      \<and> following \<noteq> []"
    then show "extractEpisode md5 now env gen ev following db =
        (None, db\<lparr>episodes := map (\<lambda>r. if r = row then bumped now row else r) (episodes db)\<rparr>)"
      using A by simp
  next
    assume H: "row \<in> set (episodes db)
      \<and> ep_project_hash row = hashProjectPath md5 (cwd ev)
      \<and> problem_summary row = extractErrorSignature (stderr ev) (command ev)"
    then show "fst (extractEpisode md5 now env gen ev following db) = None"
      using extractEpisode_no_insert [of row db md5 ev now env gen following] by simp
    from H show "length (episodes (snd (extractEpisode md5 now env gen ev following db))) = length (episodes db)"
      using extractEpisode_no_insert [of row db md5 ev now env gen following] by simp
  next
    assume "onePerSignature db"
    then show "onePerSignature (snd (extractEpisode md5 now env gen ev following db))"
      by (rule extractEpisode_onePerSignature)
  next
    assume "wfDb db"
    then show "wfDb (snd (extractEpisode md5 now env gen ev following db))"
      by (rule extractEpisode_wfDb)
  next
    assume r: "reachable db"
    then show "onePerSignature db" by (simp add: reachable_invariants)
    from r show "wfDb db" by (simp add: reachable_invariants)
  qed (rule E)+
qed

theorem extractEpisode_recurrence_witness:
  "wfDb exDb \<and> onePerSignature exDb \<and> exRow \<in> set (episodes exDb)
   \<and> ep_project_hash exRow = hashProjectPath (\<lambda>s. s) (cwd exEvent)
   \<and> problem_summary exRow = extractErrorSignature (stderr exEvent) (command exEvent)
   \<and> [exFollow] \<noteq> []
   \<and> extractEpisode (\<lambda>s. s) 3000 [] (\<lambda>t. None) exEvent [exFollow] exDb =
       (None, exDb\<lparr>episodes := [exRow\<lparr>last_seen := 3000, occurrence_count := 2\<rparr>]\<rparr>)
   \<and> onePerSignature (snd (extractEpisode (\<lambda>s. s) 3000 [] (\<lambda>t. None) exEvent [exFollow] exDb))
   \<and> wfDb (snd (extractEpisode (\<lambda>s. s) 3000 [] (\<lambda>t. None) exEvent [exFollow] exDb))
   \<and> reachable (snd (processEvent (\<lambda>s. s) 3000 3000 [] (\<lambda>t. None) exEvent emptyDb))
   \<and> onePerSignature (snd (processEvent (\<lambda>s. s) 3000 3000 [] (\<lambda>t. None) exEvent emptyDb))"
proof -
  have wf: "wfDb exDb" and inv: "onePerSignature exDb"
    by (simp_all add: wfDb_def onePerSignature_def exDb_def exRow_def)
  have row: "exRow \<in> set (episodes exDb)" by (simp add: exDb_def)
  have h: "ep_project_hash exRow = hashProjectPath (\<lambda>s. s) (cwd exEvent)"
    by (simp add: exRow_def exEvent_def hashProjectPath_def)
  have g: "problem_summary exRow = extractErrorSignature (stderr exEvent) (command exEvent)"
    by (simp add: exRow_def exEvent_def sig_boom)
  have b: "bumped 3000 exRow = exRow\<lparr>last_seen := 3000, occurrence_count := 2\<rparr>"
    by (simp add: bumped_def exRow_def)
  have e: "map (\<lambda>r. if r = exRow then bumped 3000 exRow else r) (episodes exDb)
      = [exRow\<lparr>last_seen := 3000, occurrence_count := 2\<rparr>]"
    by (simp add: exDb_def b)
  note T = extractEpisode_recurrence [of exDb exRow "\<lambda>s. s" exEvent "[exFollow]" 3000 "[]" "\<lambda>t. None"]
  have c1: "extractEpisode (\<lambda>s. s) 3000 [] (\<lambda>t. None) exEvent [exFollow] exDb =
       (None, exDb\<lparr>episodes := [exRow\<lparr>last_seen := 3000, occurrence_count := 2\<rparr>]\<rparr>)"
    using T wf inv row h g e by simp
  have c3: "onePerSignature (snd (extractEpisode (\<lambda>s. s) 3000 [] (\<lambda>t. None) exEvent [exFollow] exDb))"
    using T inv by simp
  have c4: "wfDb (snd (extractEpisode (\<lambda>s. s) 3000 [] (\<lambda>t. None) exEvent [exFollow] exDb))"
    using T wf by simp
  have c5: "reachable (snd (processEvent (\<lambda>s. s) 3000 3000 [] (\<lambda>t. None) exEvent emptyDb))"
    by (rule reachable.event [OF reachable.start])
  have c6: "onePerSignature (snd (processEvent (\<lambda>s. s) 3000 3000 [] (\<lambda>t. None) exEvent emptyDb))"
    using extractEpisode_recurrence
      [of "snd (processEvent (\<lambda>s. s) 3000 3000 [] (\<lambda>t. None) exEvent emptyDb)"
        exRow "\<lambda>s. s" exEvent "[exFollow]" 3000 "[]" "\<lambda>t. None"] c5
    by blast
  from wf inv row h g c1 c3 c4 c5 c6 show ?thesis by simp
qed

lemma no_episode_empty: "findSimilarEpisode exEventsDb h g = None"
  by (simp add: findSimilarEpisode_def exEventsDb_def)

text \<open>
  Claim C4, as stated: the fix sequence of a new episode is the join of the first five
  successful commands, for every non-empty list of following events. It fails when the
  only successful command kept is the empty string: the join is then empty, and
  \<^verbatim>\<open>fixCommands.join(' && ') || 'Unknown fix'\<close> replaces it by the sentinel although a
  following event has exit code 0.
\<close>

theorem fix_sequence_empty_command_counterexample:
  "map_option fix_sequence
     (fst (extractEpisode (\<lambda>s. s) 3000 [] (\<lambda>t. None) exEvent [exFollow\<lparr>raw_command := []\<rparr>] exEventsDb))
   = Some ''Unknown fix''
   \<and> map_option fix_sequence
     (fst (extractEpisode (\<lambda>s. s) 3000 [] (\<lambda>t. None) exEvent [exFollow\<lparr>raw_command := []\<rparr>] exEventsDb))
   \<noteq> Some (join '' && '' (take 5 (map raw_command
         (filter (\<lambda>e. raw_exit_code e = 0) [exFollow\<lparr>raw_command := []\<rparr>]))))
   \<and> filter (\<lambda>e. raw_exit_code e = 0) [exFollow\<lparr>raw_command := []\<rparr>] \<noteq> []"
proof -
  have ne: "[exFollow\<lparr>raw_command := []\<rparr>] \<noteq> []" by simp
  from extractEpisode_new [of "[exFollow\<lparr>raw_command := []\<rparr>]" exEventsDb "\<lambda>s. s" exEvent 3000 "[]" "\<lambda>t. None",
      OF ne no_episode_empty]
  obtain ep where
    "fst (extractEpisode (\<lambda>s. s) 3000 [] (\<lambda>t. None) exEvent [exFollow\<lparr>raw_command := []\<rparr>] exEventsDb) = Some ep"
    "fix_sequence ep = buildFixSequence [exFollow\<lparr>raw_command := []\<rparr>]"
    by blast
  moreover have "buildFixSequence [exFollow\<lparr>raw_command := []\<rparr>] = ''Unknown fix''"
    by (simp add: buildFixSequence_def exFollow_def)
  ultimately show ?thesis
    by (simp add: exFollow_def)
qed

text \<open>
  Claim C4, amended: when no episode exists yet for the event's project identity and
  problem signature and the list of following events is not empty, \<^verbatim>\<open>extractEpisode\<close>
  returns a new episode and appends it to the table, and its fix sequence is the
  commands of the following events with exit code 0, in order, cut to the first 5 and
  joined with \<^verbatim>\<open>" && "\<close>, unless that join is the empty string (no successful event, or a
  single kept command that is empty), in which case it is \<^verbatim>\<open>"Unknown fix"\<close>. Three
  successful commands give the three commands joined in order.
\<close>

theorem extractEpisode_fix_sequence:
  "following \<noteq> []
   \<and> findSimilarEpisode db (hashProjectPath md5 (cwd ev))
        (extractErrorSignature (stderr ev) (command ev)) = None \<longrightarrow>
   (\<exists>ep row.
      fst (extractEpisode md5 now env gen ev following db) = Some ep
      \<and> episodes (snd (extractEpisode md5 now env gen ev following db)) = episodes db @ [row]
      \<and> ep_id row = ep_id ep \<and> fix_sequence row = fix_sequence ep
      \<and> fix_sequence ep =
          (let cmds = take 5 (map raw_command (filter (\<lambda>e. raw_exit_code e = 0) following))
           in if cmds = [] \<or> cmds = [[]] then ''Unknown fix'' else join '' && '' cmds)
      \<and> (filter (\<lambda>e. raw_exit_code e = 0) following = [] \<longrightarrow> fix_sequence ep = ''Unknown fix'')
      \<and> (\<forall>a b c. map raw_command (filter (\<lambda>e. raw_exit_code e = 0) following) = [a, b, c] \<longrightarrow>
            fix_sequence ep = a @ '' && '' @ b @ '' && '' @ c))"
proof (intro impI, elim conjE)
  assume ne: "following \<noteq> []"
    and f: "findSimilarEpisode db (hashProjectPath md5 (cwd ev))
        (extractErrorSignature (stderr ev) (command ev)) = None"
  from extractEpisode_new [OF ne f, of now env gen] obtain ep row where
    r: "fst (extractEpisode md5 now env gen ev following db) = Some ep"
      "episodes (snd (extractEpisode md5 now env gen ev following db)) = episodes db @ [row]"
      "ep_id ep = Some (episodes_seq db + 1)" "ep_id row = Some (episodes_seq db + 1)"
      "fix_sequence ep = buildFixSequence following"
      "fix_sequence row = buildFixSequence following"
    by blast
  have none: "buildFixSequence following = ''Unknown fix''"
    if "filter (\<lambda>e. raw_exit_code e = 0) following = []"
    using that by (simp add: buildFixSequence_def)
  have three: "buildFixSequence following = a @ '' && '' @ b @ '' && '' @ c"
    if "map raw_command (filter (\<lambda>e. raw_exit_code e = 0) following) = [a, b, c]" for a b c
    using that by (simp add: buildFixSequence_def)
  show "\<exists>ep row.
      fst (extractEpisode md5 now env gen ev following db) = Some ep
      \<and> episodes (snd (extractEpisode md5 now env gen ev following db)) = episodes db @ [row]
      \<and> ep_id row = ep_id ep \<and> fix_sequence row = fix_sequence ep
      \<and> fix_sequence ep =
          (let cmds = take 5 (map raw_command (filter (\<lambda>e. raw_exit_code e = 0) following))
           in if cmds = [] \<or> cmds = [[]] then ''Unknown fix'' else join '' && '' cmds)
      \<and> (filter (\<lambda>e. raw_exit_code e = 0) following = [] \<longrightarrow> fix_sequence ep = ''Unknown fix'')
      \<and> (\<forall>a b c. map raw_command (filter (\<lambda>e. raw_exit_code e = 0) following) = [a, b, c] \<longrightarrow>
            fix_sequence ep = a @ '' && '' @ b @ '' && '' @ c)"
    apply (rule exI [of _ ep])
    apply (rule exI [of _ row])
    using r none three buildFixSequence_eq [of following]
    apply simp
    done
qed

theorem extractEpisode_fix_sequence_witness:
  "[exFollow] \<noteq> []
   \<and> findSimilarEpisode exEventsDb (hashProjectPath (\<lambda>s. s) (cwd exEvent))
        (extractErrorSignature (stderr exEvent) (command exEvent)) = None
   \<and> map_option fix_sequence
        (fst (extractEpisode (\<lambda>s. s) 3000 [] (\<lambda>t. None) exEvent [exFollow] exEventsDb))
      = Some ''make clean''
   \<and> map fix_sequence
        (episodes (snd (extractEpisode (\<lambda>s. s) 3000 [] (\<lambda>t. None) exEvent [exFollow] exEventsDb)))
      = [''make clean'']"
proof -
  have ne: "[exFollow] \<noteq> []" by simp
  note T = extractEpisode_fix_sequence [of "[exFollow]" exEventsDb "\<lambda>s. s" exEvent 3000 "[]" "\<lambda>t. None"]
  from T ne no_episode_empty obtain ep row where
    r: "fst (extractEpisode (\<lambda>s. s) 3000 [] (\<lambda>t. None) exEvent [exFollow] exEventsDb) = Some ep"
      "episodes (snd (extractEpisode (\<lambda>s. s) 3000 [] (\<lambda>t. None) exEvent [exFollow] exEventsDb))
        = episodes exEventsDb @ [row]"
      "fix_sequence row = fix_sequence ep"
      "fix_sequence ep =
          (let cmds = take 5 (map raw_command (filter (\<lambda>e. raw_exit_code e = 0) [exFollow]))
           in if cmds = [] \<or> cmds = [[]] then ''Unknown fix'' else join '' && '' cmds)"
    by blast
  have "fix_sequence ep = ''make clean''"
    using r(4) by (simp add: exFollow_def)
  with r ne no_episode_empty show ?thesis
    by (simp add: exEventsDb_def)
qed

subsection \<open>Raw events\<close>






lemma findSimilarEpisode_insertRawEvent:
  "findSimilarEpisode (snd (insertRawEvent db e)) h g = findSimilarEpisode db h g"
  by (simp add: findSimilarEpisode_def insertRawEvent_episodes)





subsection \<open>Retrieval\<close>

lemmas char_defs = toLowerCase_def toLowerChar_def isUpperAscii_def isLowerAscii_def isDigit_def
  isSpace_def isWordChar_def isLineTerminator_def

lemma quiet_no_trigger: "shouldRetrieve exQuietCtx = False"
  by (simp add: shouldRetrieve_def exQuietCtx_def ERROR_PATTERNS_def char_defs)

lemma noFile_project_episodes: "getEpisodesByProject exNoFileDb ''/p'' = [rowToEpisode exNoFileRow]"
  by (simp add: getEpisodesByProject_def exNoFileDb_def hashProjectPath_def exNoFileRow_def)

lemma noFile_next_step: "suggestNextStep \<lparr>episode = rowToEpisode exNoFileRow, similarity = 1, confidence = 1\<rparr> = Some ''ls''"
  by (simp add: suggestNextStep_def rowToEpisode_def exNoFileRow_def trim_def char_defs)


lemma scoreLoop_filter:
  "scoreLoop h ce ctx eps acc
   = acc @ filter (\<lambda>r. CONFIDENCE_THRESHOLD \<le> confidence r) (map (scoreEpisode h ce ctx) eps)"
  by (induction eps arbitrary: acc) (simp_all add: Let_def)

lemma retrieveSimilarEpisodes_candidates:
  "retrieveSimilarEpisodes md5 gen db ctx n
   = take n (sort_key (\<lambda>r. - confidence r)
       (filter (\<lambda>r. CONFIDENCE_THRESHOLD \<le> confidence r) (candidates md5 gen db ctx)))"
  by (simp add: retrieveSimilarEpisodes_def candidates_def Let_def scoreLoop_filter)

lemma sort_key_desc_head:
  fixes f :: "'a \<Rightarrow> real"
  assumes "sort_key (\<lambda>r. - f r) xs = y # ys"
  shows "y \<in> set xs \<and> (\<forall>x \<in> set xs. f x \<le> f y)"
proof -
  have s: "set (y # ys) = set xs"
    using assms set_sort [of "\<lambda>r. - f r" xs] by simp
  have "sorted (map (\<lambda>r. - f r) (y # ys))"
    using assms sorted_sort_key [of "\<lambda>r. - f r" xs] by simp
  then have "\<forall>z \<in> set ys. f z \<le> f y" by auto
  then have "\<forall>x \<in> set (y # ys). f x \<le> f y" by simp
  with s show ?thesis by auto
qed

lemma top_result:
  assumes "retrieveSimilarEpisodes md5 gen db ctx 1 = best # rest"
  shows "best \<in> set (candidates md5 gen db ctx) \<and> CONFIDENCE_THRESHOLD \<le> confidence best
       \<and> (\<forall>r \<in> set (candidates md5 gen db ctx). confidence r \<le> confidence best)"
proof -
  let ?passed = "filter (\<lambda>r. CONFIDENCE_THRESHOLD \<le> confidence r) (candidates md5 gen db ctx)"
  from assms obtain ys where srt: "sort_key (\<lambda>r. - confidence r) ?passed = best # ys"
    by (cases "sort_key (\<lambda>r. - confidence r) ?passed")
       (simp_all add: retrieveSimilarEpisodes_candidates)
  from sort_key_desc_head [OF srt]
  have mem: "best \<in> set ?passed" and mx: "\<forall>x \<in> set ?passed. confidence x \<le> confidence best"
    by simp_all
  from mem have t: "best \<in> set (candidates md5 gen db ctx)" "CONFIDENCE_THRESHOLD \<le> confidence best"
    by simp_all
  have "confidence r \<le> confidence best" if "r \<in> set (candidates md5 gen db ctx)" for r
  proof (cases "CONFIDENCE_THRESHOLD \<le> confidence r")
    case True
    with that mx show ?thesis by simp
  next
    case False
    with t(2) show ?thesis by simp
  qed
  with t show ?thesis by blast
qed

lemma no_result_iff:
  "retrieveSimilarEpisodes md5 gen db ctx 1 = [] \<longleftrightarrow>
   (\<forall>r \<in> set (candidates md5 gen db ctx). confidence r < CONFIDENCE_THRESHOLD)"
proof -
  let ?passed = "filter (\<lambda>r. CONFIDENCE_THRESHOLD \<le> confidence r) (candidates md5 gen db ctx)"
  have "retrieveSimilarEpisodes md5 gen db ctx 1 = [] \<longleftrightarrow> sort_key (\<lambda>r. - confidence r) ?passed = []"
    by (simp add: retrieveSimilarEpisodes_candidates)
  also have "\<dots> \<longleftrightarrow> ?passed = []"
    using length_sort [of "\<lambda>r. - confidence r" ?passed] by (metis length_0_conv)
  also have "\<dots> \<longleftrightarrow> (\<forall>r \<in> set (candidates md5 gen db ctx). confidence r < CONFIDENCE_THRESHOLD)"
    by (auto simp: filter_empty_conv)
  finally show ?thesis .
qed

text \<open>
  Claim C1, amended: a context that does not trigger retrieval (exit code 0 and no error
  marker in its error stream) gets no suggestion. If no candidate episode of the
  context's project reaches confidence 0.75, the result has \<^verbatim>\<open>shouldShow = false\<close> with
  null message and null suggested command. For a context that triggers retrieval, if at
  least one candidate reaches 0.75, the result is shown and is built from a candidate
  that reaches the threshold and whose confidence is maximal among all candidates. So a
  suggestion is shown only when retrieval is triggered and some candidate reaches 0.75.
  Every candidate belongs to the context's project.
\<close>

theorem retrieveAndSuggest_gate:
  "(\<not> shouldRetrieve ctx \<longrightarrow> retrieveAndSuggest md5 gen loc db ctx = noSuggestion)
   \<and> ((\<forall>r \<in> set (candidates md5 gen db ctx). confidence r < CONFIDENCE_THRESHOLD) \<longrightarrow>
        retrieveAndSuggest md5 gen loc db ctx = noSuggestion)
   \<and> (shouldRetrieve ctx \<and> (\<exists>r \<in> set (candidates md5 gen db ctx). CONFIDENCE_THRESHOLD \<le> confidence r) \<longrightarrow>
        (\<exists>best \<in> set (candidates md5 gen db ctx).
           CONFIDENCE_THRESHOLD \<le> confidence best
         \<and> (\<forall>r \<in> set (candidates md5 gen db ctx). confidence r \<le> confidence best)
         \<and> retrieveAndSuggest md5 gen loc db ctx =
             \<lparr>shouldShow = True,
              message = Some (formatRetrievalResult loc best),
              suggestedCommand = suggestNextStep best\<rparr>))
   \<and> (shouldShow (retrieveAndSuggest md5 gen loc db ctx) \<longrightarrow>
        shouldRetrieve ctx \<and> (\<exists>r \<in> set (candidates md5 gen db ctx). CONFIDENCE_THRESHOLD \<le> confidence r))
   \<and> (\<forall>r \<in> set (candidates md5 gen db ctx).
        ep_project_hash (episode r) = hashProjectPath md5 (ctx_cwd ctx))"
proof (intro conjI impI)
  assume "\<not> shouldRetrieve ctx"
  then show "retrieveAndSuggest md5 gen loc db ctx = noSuggestion"
    by (simp add: retrieveAndSuggest_def)
next
  assume "\<forall>r \<in> set (candidates md5 gen db ctx). confidence r < CONFIDENCE_THRESHOLD"
  then have "retrieveSimilarEpisodes md5 gen db ctx 1 = []"
    by (simp only: no_result_iff)
  then show "retrieveAndSuggest md5 gen loc db ctx = noSuggestion"
    by (simp add: retrieveAndSuggest_def)
next
  assume "shouldRetrieve ctx \<and> (\<exists>r \<in> set (candidates md5 gen db ctx). CONFIDENCE_THRESHOLD \<le> confidence r)"
  then have go: "shouldRetrieve ctx"
    and "\<not> (\<forall>r \<in> set (candidates md5 gen db ctx). confidence r < CONFIDENCE_THRESHOLD)"
    by (auto simp: not_less)
  then have "retrieveSimilarEpisodes md5 gen db ctx 1 \<noteq> []"
    by (simp only: no_result_iff not_False_eq_True)
  then obtain best rest where r: "retrieveSimilarEpisodes md5 gen db ctx 1 = best # rest"
    by (cases "retrieveSimilarEpisodes md5 gen db ctx 1") auto
  have "retrieveAndSuggest md5 gen loc db ctx =
             \<lparr>shouldShow = True,
              message = Some (formatRetrievalResult loc best),
              suggestedCommand = suggestNextStep best\<rparr>"
    using go r by (simp add: retrieveAndSuggest_def)
  with top_result [OF r]
  show "\<exists>best \<in> set (candidates md5 gen db ctx).
           CONFIDENCE_THRESHOLD \<le> confidence best
         \<and> (\<forall>r \<in> set (candidates md5 gen db ctx). confidence r \<le> confidence best)
         \<and> retrieveAndSuggest md5 gen loc db ctx =
             \<lparr>shouldShow = True,
              message = Some (formatRetrievalResult loc best),
              suggestedCommand = suggestNextStep best\<rparr>"
    by blast
next
  assume shown: "shouldShow (retrieveAndSuggest md5 gen loc db ctx)"
  then show "shouldRetrieve ctx"
    by (auto simp: retrieveAndSuggest_def noSuggestion_def split: if_splits)
  from shown have "retrieveSimilarEpisodes md5 gen db ctx 1 \<noteq> []"
    by (auto simp: retrieveAndSuggest_def noSuggestion_def split: if_splits)
  then have "\<not> (\<forall>r \<in> set (candidates md5 gen db ctx). confidence r < CONFIDENCE_THRESHOLD)"
    using no_result_iff [of md5 gen db ctx] by blast
  then show "\<exists>r \<in> set (candidates md5 gen db ctx). CONFIDENCE_THRESHOLD \<le> confidence r"
    by (auto simp: not_less)
next
  show "\<forall>r \<in> set (candidates md5 gen db ctx).
        ep_project_hash (episode r) = hashProjectPath md5 (ctx_cwd ctx)"
    by (auto simp: candidates_def scoreEpisode_def Let_def getEpisodesByProject_def rowToEpisode_def)
qed


lemma cands_quiet:
  "candidates (\<lambda>s. s) (\<lambda>t. None) exNoFileDb exQuietCtx
   = [\<lparr>episode = rowToEpisode exNoFileRow, similarity = 1, confidence = 1\<rparr>]"
  by (simp add: candidates_def exQuietCtx_def noFile_project_episodes scoreEpisode_def rowToEpisode_def exNoFileRow_def
      textSimilarity_def splitWs_def calculateConfidence_def char_defs hashProjectPath_def)

lemma cands_loud:
  "candidates (\<lambda>s. s) (\<lambda>t. None) exNoFileDb exLoudCtx
   = [\<lparr>episode = rowToEpisode exNoFileRow, similarity = 1, confidence = 1\<rparr>]"
  by (simp add: candidates_def exLoudCtx_def exQuietCtx_def noFile_project_episodes scoreEpisode_def rowToEpisode_def exNoFileRow_def
      textSimilarity_def splitWs_def calculateConfidence_def char_defs hashProjectPath_def)

lemma cands_other:
  "candidates (\<lambda>s. s) (\<lambda>t. None) exNoFileDb exOtherCtx
   = [\<lparr>episode = rowToEpisode exNoFileRow, similarity = 1 / 4, confidence = 17 / 40\<rparr>]"
  by (simp add: candidates_def exOtherCtx_def exQuietCtx_def noFile_project_episodes scoreEpisode_def rowToEpisode_def exNoFileRow_def
      textSimilarity_def splitWs_def calculateConfidence_def char_defs hashProjectPath_def)

text \<open>
  Claim C1, as stated for every retrieval context: if at least one candidate reaches the
  threshold, a result is shown. It fails for a context that does not trigger retrieval:
  a command that exited with code 0 and whose error stream holds no error marker gets
  no suggestion, although the one candidate of its project has confidence 1.
\<close>

theorem retrieveAndSuggest_quiet_counterexample:
  "map confidence (candidates (\<lambda>s. s) (\<lambda>t. None) exNoFileDb exQuietCtx) = [1]
   \<and> CONFIDENCE_THRESHOLD \<le> 1
   \<and> retrieveAndSuggest (\<lambda>s. s) (\<lambda>t. None) exLocale exNoFileDb exQuietCtx = noSuggestion
   \<and> \<not> shouldShow (retrieveAndSuggest (\<lambda>s. s) (\<lambda>t. None) exLocale exNoFileDb exQuietCtx)"
  by (simp add: cands_quiet CONFIDENCE_THRESHOLD_def retrieveAndSuggest_def quiet_no_trigger noSuggestion_def)

theorem retrieveAndSuggest_gate_witness:
  "\<not> shouldRetrieve exQuietCtx
   \<and> retrieveAndSuggest (\<lambda>s. s) (\<lambda>t. None) exLocale exNoFileDb exQuietCtx = noSuggestion
   \<and> retrieveAndSuggest (\<lambda>s. s) (\<lambda>t. None) exLocale exNoFileDb exOtherCtx = noSuggestion
   \<and> shouldRetrieve exLoudCtx
   \<and> shouldShow (retrieveAndSuggest (\<lambda>s. s) (\<lambda>t. None) exLocale exNoFileDb exLoudCtx)
   \<and> suggestedCommand (retrieveAndSuggest (\<lambda>s. s) (\<lambda>t. None) exLocale exNoFileDb exLoudCtx)
       = Some ''ls''"
proof -
  have loud: "shouldRetrieve exLoudCtx"
    by (simp add: shouldRetrieve_def exLoudCtx_def exQuietCtx_def)
  have r1: "retrieveAndSuggest (\<lambda>s. s) (\<lambda>t. None) exLocale exNoFileDb exQuietCtx = noSuggestion"
    using retrieveAndSuggest_gate [of exQuietCtx "\<lambda>s. s" "\<lambda>t. None" exLocale exNoFileDb] quiet_no_trigger
    by simp
  have r2: "retrieveAndSuggest (\<lambda>s. s) (\<lambda>t. None) exLocale exNoFileDb exOtherCtx = noSuggestion"
    using retrieveAndSuggest_gate [of exOtherCtx "\<lambda>s. s" "\<lambda>t. None" exLocale exNoFileDb]
    by (simp add: cands_other CONFIDENCE_THRESHOLD_def)
  have r3: "retrieveAndSuggest (\<lambda>s. s) (\<lambda>t. None) exLocale exNoFileDb exLoudCtx
      = \<lparr>shouldShow = True,
         message = Some (formatRetrievalResult exLocale
           \<lparr>episode = rowToEpisode exNoFileRow, similarity = 1, confidence = 1\<rparr>),
         suggestedCommand = suggestNextStep
           \<lparr>episode = rowToEpisode exNoFileRow, similarity = 1, confidence = 1\<rparr>\<rparr>"
    using retrieveAndSuggest_gate [of exLoudCtx "\<lambda>s. s" "\<lambda>t. None" exLocale exNoFileDb] loud
    by (simp add: cands_loud CONFIDENCE_THRESHOLD_def)
  show ?thesis
    using quiet_no_trigger r1 r2 loud by (simp add: r3 noFile_next_step)
qed

subsection \<open>Stored embeddings\<close>

lemma insertEpisode_readback:
  "findSimilarEpisode db (ep_project_hash e) (problem_summary e) = None \<Longrightarrow>
   map_option embedding
     (findSimilarEpisode (snd (insertEpisode db e)) (ep_project_hash e) (problem_summary e))
   = Some (map_option (map (\<lambda>x. fromUint8 (toUint8 x))) (embedding e))"
  by (auto simp: findSimilarEpisode_def insertEpisode_def Let_def rowToEpisode_def
      split: list.splits option.splits)

text \<open>
  Claim C6 says that an embedding read back from the store has the length and the
  component values of the embedding that was inserted. The length is kept, the values
  are not: \<^verbatim>\<open>insertEpisode\<close> binds \<^verbatim>\<open>new Uint8Array(episode.embedding)\<close>, which cuts every
  component to an integer modulo 256, and \<^verbatim>\<open>rowToEpisode\<close> reads those bytes back as
  numbers. The embedding \<open>[0.5, 0.25]\<close> comes back as \<open>[0, 0]\<close> through both
  \<^verbatim>\<open>findSimilarEpisode\<close> and \<^verbatim>\<open>getEpisodesByProject\<close>, and its cosine similarity to the
  query \<open>[0.5, 0.25]\<close> drops from 1 to 0.
\<close>

theorem insertEpisode_embedding_truncated:
  "map_option embedding
     (findSimilarEpisode (snd (insertEpisode emptyDb exEmbedded)) ''/p'' ''boom'')
   = Some (Some [0, 0])
   \<and> map embedding (getEpisodesByProject (snd (insertEpisode emptyDb exEmbedded)) ''/p'')
   = [Some [0, 0]]
   \<and> embedding exEmbedded = Some [0.5, 0.25]
   \<and> cosineSimilarity [0.5, 0.25] [0.5, 0.25] = 1
   \<and> cosineSimilarity [0.5, 0.25] [0, 0] = 0"
  by (simp add: exEmbedded_def insertEpisode_def emptyDb_def findSimilarEpisode_def
      getEpisodesByProject_def rowToEpisode_def toUint8_def fromUint8_def Let_def
      cosineSimilarity_def)

subsection \<open>Problem signatures\<close>







































end
